theory Spec2Isabelle
  imports Main "HOL-Library.Log_Nat" "HOL-Library.Word"
begin

unbundle bit_operations_syntax

section \<open>Python numbers\<close>

text \<open>
  The dimension arithmetic of \<^verbatim>\<open>utils/image_utils.py\<close> and
  \<^verbatim>\<open>utils/image_processor.py\<close> mixes Python's unbounded integers with
  floats: \<^verbatim>\<open>a / b\<close> on two integers is true division and yields a binary64
  value, \<^verbatim>\<open>int(x)\<close> truncates a float toward zero. A finite binary64 value is
  modelled by the rational number it denotes; every operation computes the exact
  rational result and rounds it to the nearest representable value, ties to even,
  as IEEE 754 prescribes and CPython implements. The sign of zero is not modelled:
  the code below never observes it (a zero divisor raises whatever its sign, and
  \<^verbatim>\<open>int(-0.0)\<close> is \<^verbatim>\<open>0\<close>).
\<close>

datatype py_error = ZeroDivisionError | OverflowError

datatype pyfloat = Finite rat | PosInf | NegInf

definition round_half_even :: "rat \<Rightarrow> int" where
  "round_half_even r =
     (let f = \<lfloor>r\<rfloor>; d = r - of_int f
      in if d < 1 / 2 then f else if 1 / 2 < d then f + 1 else if even f then f else f + 1)"

text \<open>\<open>ilog2 q\<close> is the binary exponent of a nonzero \<open>q\<close>: \<open>2 ^ ilog2 q \<le> \<bar>q\<bar> < 2 ^ (ilog2 q + 1)\<close>.\<close>

definition ilog2 :: "rat \<Rightarrow> int" where
  "ilog2 q = (if 1 \<le> \<bar>q\<bar> then bitlen \<lfloor>\<bar>q\<bar>\<rfloor> - 1 else - bitlen (\<lceil>1 / \<bar>q\<bar>\<rceil> - 1))"

text \<open>
  Rounding to binary64 with an unbounded upper exponent: 53 significant bits for
  normal values, a fixed spacing of \<open>2 ^ - 1074\<close> below \<open>2 ^ - 1022\<close> (subnormals).
\<close>

definition ulp_exp :: "rat \<Rightarrow> int" where
  "ulp_exp q = max (ilog2 q) (- 1022) - 52"

definition fl :: "rat \<Rightarrow> rat" where
  "fl q = (if q = 0 then 0
           else let u = 2 powi ulp_exp q
                in of_int (round_half_even (q / u)) * u)"

text \<open>The result of an IEEE operation: a rounded value beyond the largest finite double is an infinity.\<close>

definition ieee_result :: "rat \<Rightarrow> pyfloat" where
  "ieee_result q =
     (let r = fl q
      in if 2 ^ 1024 \<le> r then PosInf else if r \<le> - (2 ^ 1024) then NegInf else Finite r)"

text \<open>\<^verbatim>\<open>a / b\<close> on two ints: correctly rounded, raising on a zero divisor or a result too large for a float.\<close>

definition int_truediv :: "int \<Rightarrow> int \<Rightarrow> py_error + rat" where
  "int_truediv a b =
     (if b = 0 then Inl ZeroDivisionError
      else case ieee_result (of_int a / of_int b) of
             Finite r \<Rightarrow> Inr r
           | _ \<Rightarrow> Inl OverflowError)"

text \<open>The conversion of an int operand in mixed int/float arithmetic.\<close>

definition float_of_int :: "int \<Rightarrow> py_error + rat" where
  "float_of_int n =
     (case ieee_result (of_int n) of
        Finite r \<Rightarrow> Inr r
      | _ \<Rightarrow> Inl OverflowError)"

text \<open>\<^verbatim>\<open>n / x\<close> for an int \<open>n\<close> and a float \<open>x\<close>: the int is converted first, then the divisor is checked.\<close>

definition int_div_float :: "int \<Rightarrow> rat \<Rightarrow> py_error + pyfloat" where
  "int_div_float n x =
     (case float_of_int n of
        Inl e \<Rightarrow> Inl e
      | Inr y \<Rightarrow> if x = 0 then Inl ZeroDivisionError else Inr (ieee_result (y / x)))"

text \<open>\<^verbatim>\<open>n * x\<close> for an int \<open>n\<close> and a float \<open>x\<close>.\<close>

definition int_mul_float :: "int \<Rightarrow> rat \<Rightarrow> py_error + pyfloat" where
  "int_mul_float n x =
     (case float_of_int n of
        Inl e \<Rightarrow> Inl e
      | Inr y \<Rightarrow> Inr (ieee_result (y * x)))"

definition float_sub :: "rat \<Rightarrow> rat \<Rightarrow> pyfloat" where
  "float_sub x y = ieee_result (x - y)"

fun float_abs :: "pyfloat \<Rightarrow> pyfloat" where
  "float_abs (Finite r) = Finite \<bar>r\<bar>"
| "float_abs PosInf = PosInf"
| "float_abs NegInf = PosInf"

fun float_less :: "pyfloat \<Rightarrow> pyfloat \<Rightarrow> bool" where
  "float_less (Finite a) (Finite b) = (a < b)"
| "float_less NegInf (Finite b) = True"
| "float_less NegInf PosInf = True"
| "float_less (Finite a) PosInf = True"
| "float_less _ _ = False"

text \<open>\<^verbatim>\<open>int(x)\<close>: truncation toward zero; an infinity raises OverflowError.\<close>

definition py_trunc :: "rat \<Rightarrow> int" where
  "py_trunc r = (if 0 \<le> r then \<lfloor>r\<rfloor> else \<lceil>r\<rceil>)"

fun py_int :: "pyfloat \<Rightarrow> py_error + int" where
  "py_int (Finite r) = Inr (py_trunc r)"
| "py_int PosInf = Inl OverflowError"
| "py_int NegInf = Inl OverflowError"

text \<open>\<^verbatim>\<open>round(x, 2)\<close> on a finite float: the exact value is rounded half-even to two
  decimals, and the nearest double to that decimal is returned.\<close>

definition py_round2 :: "rat \<Rightarrow> rat" where
  "py_round2 x = fl (of_int (round_half_even (x * 100)) / 100)"

text \<open>Truthiness of an optional int argument: \<^verbatim>\<open>None\<close> and \<^verbatim>\<open>0\<close> are falsy.\<close>

fun truthy :: "int option \<Rightarrow> int option" where
  "truthy None = None"
| "truthy (Some n) = (if n = 0 then None else Some n)"

text \<open>\<^verbatim>\<open>x or d\<close> for an optional int \<open>x\<close> and an int \<open>d\<close>.\<close>

definition py_or :: "int option \<Rightarrow> int \<Rightarrow> int" where
  "py_or x d = (case truthy x of Some n \<Rightarrow> n | None \<Rightarrow> d)"


section \<open>ImageUtils: dimension arithmetic\<close>

text \<open>\<^verbatim>\<open>ImageUtils.calculate_new_dimensions\<close>; the returned dict is the pair (width, height).\<close>

definition calculate_new_dimensions ::
  "int \<Rightarrow> int \<Rightarrow> int option \<Rightarrow> int option \<Rightarrow> bool \<Rightarrow> py_error + (int \<times> int)" where
  "calculate_new_dimensions original_width original_height target_width target_height maintain_aspect =
     (if \<not> maintain_aspect
      then Inr (py_or target_width original_width, py_or target_height original_height)
      else case int_truediv original_width original_height of
        Inl e \<Rightarrow> Inl e
      | Inr aspect_ratio \<Rightarrow>
         (case (truthy target_width, truthy target_height) of
            (Some tw, None) \<Rightarrow>
              (case int_div_float tw aspect_ratio of
                 Inl e \<Rightarrow> Inl e
               | Inr q \<Rightarrow> (case py_int q of Inl e \<Rightarrow> Inl e | Inr k \<Rightarrow> Inr (tw, k)))
          | (None, Some th) \<Rightarrow>
              (case int_mul_float th aspect_ratio of
                 Inl e \<Rightarrow> Inl e
               | Inr q \<Rightarrow> (case py_int q of Inl e \<Rightarrow> Inl e | Inr k \<Rightarrow> Inr (k, th)))
          | (Some tw, Some th) \<Rightarrow>
              (case int_truediv tw th of
                 Inl e \<Rightarrow> Inl e
               | Inr target_aspect \<Rightarrow>
                   if float_less (float_abs (float_sub aspect_ratio target_aspect))
                        (Finite (fl (1 / 100)))
                   then Inr (tw, th)
                   else (case int_truediv tw original_width of
                           Inl e \<Rightarrow> Inl e
                         | Inr rw \<Rightarrow>
                            (case int_truediv th original_height of
                               Inl e \<Rightarrow> Inl e
                             | Inr rh \<Rightarrow>
                                 if rh < rw
                                 then (case int_mul_float th aspect_ratio of
                                         Inl e \<Rightarrow> Inl e
                                       | Inr q \<Rightarrow>
                                          (case py_int q of
                                             Inl e \<Rightarrow> Inl e
                                           | Inr k \<Rightarrow> Inr (k, th)))
                                 else (case int_div_float tw aspect_ratio of
                                         Inl e \<Rightarrow> Inl e
                                       | Inr q \<Rightarrow>
                                          (case py_int q of
                                             Inl e \<Rightarrow> Inl e
                                           | Inr k \<Rightarrow> Inr (tw, k))))))
          | (None, None) \<Rightarrow> Inr (original_width, original_height)))"

text \<open>\<^verbatim>\<open>ImageUtils.pixels_to_inches\<close>: \<^verbatim>\<open>round(pixels / ppi, 2) if ppi > 0 else 0\<close>.\<close>

definition pixels_to_inches :: "int \<Rightarrow> int \<Rightarrow> py_error + rat" where
  "pixels_to_inches pixels ppi =
     (if 0 < ppi
      then (case int_truediv pixels ppi of Inl e \<Rightarrow> Inl e | Inr q \<Rightarrow> Inr (py_round2 q))
      else Inr 0)"


section \<open>Images and the library operations\<close>

text \<open>
  An image is a numpy array of unsigned bytes, modelled as the list of its rows;
  \<^verbatim>\<open>img.shape[:2]\<close> is (height, width). The colour image that
  \<^verbatim>\<open>cv2.imread\<close> decodes has a BGR triple per pixel, the outline is a
  single-channel image.
\<close>

type_synonym gray_image = "8 word list list"
type_synonym color_image = "(8 word \<times> 8 word \<times> 8 word) list list"

definition shape :: "'p list list \<Rightarrow> int \<times> int" where
  "shape img = (int (length img), (case img of [] \<Rightarrow> 0 | r # _ \<Rightarrow> int (length r)))"

text \<open>\<^verbatim>\<open>cv2.bitwise_not\<close> on a single-channel byte image.\<close>

definition bitwise_not :: "gray_image \<Rightarrow> gray_image" where
  "bitwise_not img = map (map (\<lambda>p. NOT p)) img"

text \<open>\<^verbatim>\<open>cv2.threshold(src, thresh, maxval, cv2.THRESH_BINARY)[1]\<close>:
  \<open>maxval\<close> where the sample exceeds \<open>thresh\<close>, else 0.\<close>

definition threshold_binary :: "gray_image \<Rightarrow> 8 word \<Rightarrow> 8 word \<Rightarrow> gray_image" where
  "threshold_binary src thresh maxval = map (map (\<lambda>p. if thresh < p then maxval else 0)) src"

text \<open>Steps 5 and 6 of every extraction variant: invert, then threshold at 127 with maximum 255.\<close>

definition invert_and_binarize :: "gray_image \<Rightarrow> gray_image" where
  "invert_and_binarize edges = threshold_binary (bitwise_not edges) 127 255"

datatype imwrite_flag = IMWRITE_PNG_COMPRESSION | IMWRITE_JPEG_QUALITY | IMWRITE_WEBP_QUALITY

datatype morph_shape = MORPH_ELLIPSE

datatype interpolation = INTER_CUBIC | INTER_AREA

text \<open>An exception object; \<open>LibraryError\<close> is one raised inside OpenCV, Pillow or the network.\<close>

datatype exn = RuntimeError string | ValueError string | ArithmeticError py_error | LibraryError string

text \<open>The \<^verbatim>\<open>'error'\<close> entry of a failure dict: a literal message, or \<^verbatim>\<open>str(e)\<close> of a caught exception.\<close>

datatype error_text = Text string | Str_of exn

datatype 'i py_result = Success 'i | Failure error_text

text \<open>
  OpenCV, numpy, Pillow, pathlib and the Real-ESRGAN network are outside the
  repository: their operations are parameters of the model. \<open>'fs\<close> is the state
  of the file system, \<open>'k\<close> the type of a structuring element. \<open>imread\<close> yields
  \<^verbatim>\<open>None\<close> for an unreadable file; \<open>imwrite\<close> and \<open>pil_save\<close> return the
  file system they leave and the exception they raised, if any; the network and
  \<open>resize\<close> return their image or the exception they raised.
\<close>

text \<open>The keyword arguments of \<^verbatim>\<open>PIL.Image.save\<close>; an absent keyword is \<open>None\<close>.\<close>

record save_args =
  save_format :: string
  save_dpi :: "int \<times> int"
  save_optimize :: "bool option"
  save_quality :: "int option"
  save_compression :: "string option"

record ('fs, 'k) libs =
  imread :: "'fs \<Rightarrow> string \<Rightarrow> color_image option"
  imwrite :: "'fs \<Rightarrow> string \<Rightarrow> gray_image \<Rightarrow> (imwrite_flag \<times> int) list \<Rightarrow> 'fs \<times> exn option"
  cvtColor_BGR2GRAY :: "color_image \<Rightarrow> gray_image"
  GaussianBlur :: "gray_image \<Rightarrow> int \<times> int \<Rightarrow> rat \<Rightarrow> gray_image"
  bilateralFilter :: "gray_image \<Rightarrow> int \<Rightarrow> int \<Rightarrow> int \<Rightarrow> gray_image"
  Canny :: "gray_image \<Rightarrow> int \<Rightarrow> int \<Rightarrow> int \<Rightarrow> bool \<Rightarrow> gray_image"
  getStructuringElement :: "morph_shape \<Rightarrow> int \<times> int \<Rightarrow> 'k"
  dilate :: "gray_image \<Rightarrow> 'k \<Rightarrow> int \<Rightarrow> gray_image"
  morphologyEx_CLOSE :: "gray_image \<Rightarrow> 'k \<Rightarrow> gray_image"
  threshold_otsu :: "gray_image \<Rightarrow> gray_image"
  median :: "gray_image \<Rightarrow> rat"
  path_suffix :: "string \<Rightarrow> string"
  str_lower :: "string \<Rightarrow> string"
  str_upper :: "string \<Rightarrow> string"
  realesrgan_enhance :: "color_image \<Rightarrow> int \<Rightarrow> exn + color_image"
  resize :: "color_image \<Rightarrow> int \<times> int \<Rightarrow> interpolation \<Rightarrow> exn + color_image"
  cvtColor_BGR2RGB :: "color_image \<Rightarrow> color_image"
  pil_save :: "'fs \<Rightarrow> string \<Rightarrow> color_image \<Rightarrow> save_args \<Rightarrow> 'fs \<times> exn option"


section \<open>OutlineExtractor\<close>

record outline_extractor =
  default_thickness :: int
  canny_threshold1 :: int
  canny_threshold2 :: int

text \<open>The \<^verbatim>\<open>'output_info'\<close> dict; the entries a variant does not report are \<open>None\<close>.\<close>

record outline_info =
  out_width :: int
  out_height :: int
  out_thickness :: int
  out_file_path :: string
  out_format :: "string option"
  out_auto_threshold :: "bool option"
  out_detail_level :: "string option"

text \<open>\<^verbatim>\<open>if thickness is None: thickness = self.default_thickness\<close>, then
  \<^verbatim>\<open>thickness = max(1, min(5, thickness))\<close>.\<close>

definition clamp_thickness :: "outline_extractor \<Rightarrow> int option \<Rightarrow> int" where
  "clamp_thickness self thickness =
     (let thickness = (case thickness of None \<Rightarrow> default_thickness self | Some t \<Rightarrow> t)
      in max 1 (min 5 thickness))"

text \<open>\<^verbatim>\<open>output_ext.replace('.', '').upper()\<close>\<close>

definition format_of :: "('fs, 'k) libs \<Rightarrow> string \<Rightarrow> string" where
  "format_of lib output_ext = str_upper lib (filter (\<lambda>c. c \<noteq> CHR ''.'') output_ext)"

text \<open>Steps 1 to 6 of \<^verbatim>\<open>OutlineExtractor.extract_outline\<close>: from the decoded image to
  the outline, for a thickness that is already clamped.\<close>

definition outline_steps ::
  "('fs, 'k) libs \<Rightarrow> outline_extractor \<Rightarrow> int \<Rightarrow> color_image \<Rightarrow> gray_image" where
  "outline_steps lib self thickness img =
     (let gray = cvtColor_BGR2GRAY lib img;
          blurred = GaussianBlur lib gray (5, 5) (fl (14 / 10));
          edges = Canny lib blurred (canny_threshold1 self) (canny_threshold2 self) 3 True;
          edges = (if 1 < thickness
                   then dilate lib edges
                          (getStructuringElement lib MORPH_ELLIPSE (thickness, thickness)) 1
                   else edges)
      in invert_and_binarize edges)"

text \<open>The encoder parameters \<^verbatim>\<open>extract_outline\<close> chooses from the output extension.\<close>

definition imwrite_params :: "string \<Rightarrow> (imwrite_flag \<times> int) list" where
  "imwrite_params output_ext =
     (if output_ext \<in> set [''.png''] then [(IMWRITE_PNG_COMPRESSION, 9)]
      else if output_ext \<in> set [''.jpg'', ''.jpeg''] then [(IMWRITE_JPEG_QUALITY, 95)]
      else if output_ext = ''.bmp'' then []
      else if output_ext \<in> set [''.tif'', ''.tiff''] then []
      else if output_ext = ''.webp'' then [(IMWRITE_WEBP_QUALITY, 95)]
      else [(IMWRITE_PNG_COMPRESSION, 9)])"

text \<open>\<^verbatim>\<open>OutlineExtractor.extract_outline\<close>, returning the result dict and the file system.\<close>

definition extract_outline ::
  "('fs, 'k) libs \<Rightarrow> outline_extractor \<Rightarrow> 'fs \<Rightarrow> string \<Rightarrow> string \<Rightarrow> int option
     \<Rightarrow> outline_info py_result \<times> 'fs" where
  "extract_outline lib self fs input_path output_path thickness =
     (let thickness = clamp_thickness self thickness
      in case imread lib fs input_path of
           None \<Rightarrow> (Failure (Text (''Failed to read image from '' @ input_path)), fs)
         | Some img \<Rightarrow>
            (let outline = outline_steps lib self thickness img;
                 output_ext = str_lower lib (path_suffix lib output_path)
             in case imwrite lib fs output_path outline (imwrite_params output_ext) of
                  (fs', Some e) \<Rightarrow> (Failure (Str_of e), fs')
                | (fs', None) \<Rightarrow>
                    (case shape outline of
                       (h, w) \<Rightarrow>
                         (Success \<lparr> out_width = w, out_height = h, out_thickness = thickness,
                                    out_file_path = output_path,
                                    out_format = Some (format_of lib output_ext),
                                    out_auto_threshold = None, out_detail_level = None \<rparr>, fs'))))"

text \<open>\<^verbatim>\<open>int(np.median(binary) * c)\<close> for a float constant \<open>c\<close>; the median of a
  byte image is finite.\<close>

definition scaled_median :: "('fs, 'k) libs \<Rightarrow> gray_image \<Rightarrow> rat \<Rightarrow> py_error + int" where
  "scaled_median lib binary c = py_int (ieee_result (median lib binary * c))"

text \<open>\<^verbatim>\<open>OutlineExtractor.extract_outline_advanced\<close>\<close>

definition extract_outline_advanced ::
  "('fs, 'k) libs \<Rightarrow> outline_extractor \<Rightarrow> 'fs \<Rightarrow> string \<Rightarrow> string \<Rightarrow> int option \<Rightarrow> bool
     \<Rightarrow> outline_info py_result \<times> 'fs" where
  "extract_outline_advanced lib self fs input_path output_path thickness auto =
     (let thickness = clamp_thickness self thickness
      in case imread lib fs input_path of
           None \<Rightarrow> (Failure (Text (''Failed to read image from '' @ input_path)), fs)
         | Some img \<Rightarrow>
            (let gray = cvtColor_BGR2GRAY lib img;
                 filtered = bilateralFilter lib gray 9 75 75;
                 thresholds =
                   (if auto
                    then (let binary = threshold_otsu lib filtered
                          in case scaled_median lib binary (fl (33 / 100)) of
                               Inl e \<Rightarrow> Inl e
                             | Inr threshold1 \<Rightarrow>
                                (case scaled_median lib binary (fl (66 / 100)) of
                                   Inl e \<Rightarrow> Inl e
                                 | Inr threshold2 \<Rightarrow> Inr (threshold1, threshold2)))
                    else Inr (canny_threshold1 self, canny_threshold2 self))
             in case thresholds of
                  Inl e \<Rightarrow> (Failure (Str_of (ArithmeticError e)), fs)
                | Inr (threshold1, threshold2) \<Rightarrow>
                   (let edges = Canny lib filtered threshold1 threshold2 3 True;
                        kernel = getStructuringElement lib MORPH_ELLIPSE (3, 3);
                        closed = morphologyEx_CLOSE lib edges kernel;
                        closed = (if 1 < thickness
                                  then dilate lib closed
                                         (getStructuringElement lib MORPH_ELLIPSE
                                            (thickness, thickness)) 1
                                  else closed);
                        outline = invert_and_binarize closed;
                        output_ext = str_lower lib (path_suffix lib output_path);
                        params = (if output_ext \<in> set [''.png'']
                                  then [(IMWRITE_PNG_COMPRESSION, 9)] else [])
                    in case imwrite lib fs output_path outline params of
                         (fs', Some e) \<Rightarrow> (Failure (Str_of e), fs')
                       | (fs', None) \<Rightarrow>
                           (case shape outline of
                              (h, w) \<Rightarrow>
                                (Success \<lparr> out_width = w, out_height = h, out_thickness = thickness,
                                           out_file_path = output_path,
                                           out_format = Some (format_of lib output_ext),
                                           out_auto_threshold = Some auto,
                                           out_detail_level = None \<rparr>, fs')))))"

text \<open>\<^verbatim>\<open>OutlineExtractor.extract_outline_with_detail\<close>\<close>

definition extract_outline_with_detail ::
  "('fs, 'k) libs \<Rightarrow> outline_extractor \<Rightarrow> 'fs \<Rightarrow> string \<Rightarrow> string \<Rightarrow> int option \<Rightarrow> string
     \<Rightarrow> outline_info py_result \<times> 'fs" where
  "extract_outline_with_detail lib self fs input_path output_path thickness level =
     (let thickness = clamp_thickness self thickness
      in case imread lib fs input_path of
           None \<Rightarrow> (Failure (Text (''Failed to read image from '' @ input_path)), fs)
         | Some img \<Rightarrow>
            (let gray = cvtColor_BGR2GRAY lib img;
                 (blur_kernel, threshold1, threshold2) =
                   (if level = ''low'' then ((7, 7), 100, 200)
                    else if level = ''high'' then ((3, 3), 30, 100)
                    else ((5, 5), canny_threshold1 self, canny_threshold2 self));
                 blurred = GaussianBlur lib gray blur_kernel (fl (14 / 10));
                 edges = Canny lib blurred threshold1 threshold2 3 True;
                 edges = (if 1 < thickness
                          then dilate lib edges
                                 (getStructuringElement lib MORPH_ELLIPSE (thickness, thickness)) 1
                          else edges);
                 outline = invert_and_binarize edges
             in case imwrite lib fs output_path outline [] of
                  (fs', Some e) \<Rightarrow> (Failure (Str_of e), fs')
                | (fs', None) \<Rightarrow>
                    (case shape outline of
                       (h, w) \<Rightarrow>
                         (Success \<lparr> out_width = w, out_height = h, out_thickness = thickness,
                                    out_file_path = output_path,
                                    out_format = None, out_auto_threshold = None,
                                    out_detail_level = Some level \<rparr>, fs'))))"


section \<open>RealESRGANModel and ImageProcessor\<close>

text \<open>The fields of \<^verbatim>\<open>RealESRGANModel\<close> that inference reads: the loaded flag and
  \<^verbatim>\<open>config['ESRGAN_SCALE']\<close>.\<close>

record realesrgan_model =
  model_loaded :: bool
  esrgan_scale :: int

text \<open>\<^verbatim>\<open>ImageProcessor.esrgan_model\<close> is \<^verbatim>\<open>None\<close> when the model could not be initialised.\<close>

record image_processor =
  esrgan_model :: "realesrgan_model option"

text \<open>\<^verbatim>\<open>RealESRGANModel.upscale_image\<close> with no output path.\<close>

definition upscale_image ::
  "('fs, 'k) libs \<Rightarrow> realesrgan_model \<Rightarrow> 'fs \<Rightarrow> string \<Rightarrow> exn + color_image" where
  "upscale_image lib self fs image_path =
     (if \<not> model_loaded self
      then Inl (RuntimeError ''Model not loaded. Cannot perform upscaling.'')
      else case imread lib fs image_path of
             None \<Rightarrow> Inl (ValueError (''Failed to read image from '' @ image_path))
           | Some img \<Rightarrow> realesrgan_enhance lib img (esrgan_scale self))"

text \<open>Lines 72 to 88 of \<^verbatim>\<open>enhance_image\<close>: the defaults for absent targets and the
  aspect-ratio adjustment.\<close>

definition target_dimensions ::
  "int \<Rightarrow> int \<Rightarrow> int option \<Rightarrow> int option \<Rightarrow> bool \<Rightarrow> py_error + (int \<times> int)" where
  "target_dimensions original_width original_height target_width target_height maintain_aspect =
     (let target_width = (case target_width of None \<Rightarrow> original_width | Some w \<Rightarrow> w);
          target_height = (case target_height of None \<Rightarrow> original_height | Some h \<Rightarrow> h)
      in if maintain_aspect \<and> target_width \<noteq> 0 \<and> target_height \<noteq> 0
         then (case int_truediv original_width original_height of
                 Inl e \<Rightarrow> Inl e
               | Inr aspect_ratio \<Rightarrow>
                  (case int_truediv target_width target_height of
                     Inl e \<Rightarrow> Inl e
                   | Inr target_aspect \<Rightarrow>
                      if float_less (Finite (fl (1 / 100)))
                           (float_abs (float_sub aspect_ratio target_aspect))
                      then (case int_truediv target_width original_width of
                              Inl e \<Rightarrow> Inl e
                            | Inr rw \<Rightarrow>
                               (case int_truediv target_height original_height of
                                  Inl e \<Rightarrow> Inl e
                                | Inr rh \<Rightarrow>
                                   if rh < rw
                                   then (case int_mul_float target_height aspect_ratio of
                                           Inl e \<Rightarrow> Inl e
                                         | Inr q \<Rightarrow>
                                            (case py_int q of
                                               Inl e \<Rightarrow> Inl e
                                             | Inr k \<Rightarrow> Inr (k, target_height)))
                                   else (case int_div_float target_width aspect_ratio of
                                           Inl e \<Rightarrow> Inl e
                                         | Inr q \<Rightarrow>
                                            (case py_int q of
                                               Inl e \<Rightarrow> Inl e
                                             | Inr k \<Rightarrow> Inr (target_width, k)))))
                      else Inr (target_width, target_height)))
         else Inr (target_width, target_height))"

text \<open>Lines 101 to 106: the interpolation for a resize from the upscaled size to the target size.\<close>

definition select_interpolation :: "int \<Rightarrow> int \<Rightarrow> int \<Rightarrow> int \<Rightarrow> interpolation" where
  "select_interpolation upscaled_width upscaled_height target_width target_height =
     (if upscaled_width < target_width \<or> upscaled_height < target_height
      then INTER_CUBIC else INTER_AREA)"

text \<open>Step 2 of \<^verbatim>\<open>enhance_image\<close> (lines 95 to 114): resize to the target dimensions if different.\<close>

definition resize_to_target ::
  "('fs, 'k) libs \<Rightarrow> color_image \<Rightarrow> int \<Rightarrow> int \<Rightarrow> exn + color_image" where
  "resize_to_target lib upscaled_img target_width target_height =
     (case shape upscaled_img of
        (upscaled_height, upscaled_width) \<Rightarrow>
          if target_width \<noteq> upscaled_width \<or> target_height \<noteq> upscaled_height
          then resize lib upscaled_img (target_width, target_height)
                 (select_interpolation upscaled_width upscaled_height target_width target_height)
          else Inr upscaled_img)"

text \<open>The keyword arguments chosen from the output extension (lines 130 to 171).\<close>

definition save_args_for :: "string \<Rightarrow> int \<times> int \<Rightarrow> save_args" where
  "save_args_for output_ext dpi =
     (if output_ext \<in> set [''.png'']
      then \<lparr> save_format = ''PNG'', save_dpi = dpi, save_optimize = Some True,
             save_quality = None, save_compression = None \<rparr>
      else if output_ext \<in> set [''.jpg'', ''.jpeg'']
      then \<lparr> save_format = ''JPEG'', save_dpi = dpi, save_optimize = Some True,
             save_quality = Some 95, save_compression = None \<rparr>
      else if output_ext = ''.bmp''
      then \<lparr> save_format = ''BMP'', save_dpi = dpi, save_optimize = None,
             save_quality = None, save_compression = None \<rparr>
      else if output_ext \<in> set [''.tif'', ''.tiff'']
      then \<lparr> save_format = ''TIFF'', save_dpi = dpi, save_optimize = None,
             save_quality = None, save_compression = Some ''tiff_lzw'' \<rparr>
      else if output_ext = ''.webp''
      then \<lparr> save_format = ''WEBP'', save_dpi = dpi, save_optimize = None,
             save_quality = Some 95, save_compression = None \<rparr>
      else \<lparr> save_format = ''PNG'', save_dpi = dpi, save_optimize = None,
             save_quality = None, save_compression = None \<rparr>)"

record enhance_info =
  enh_width :: int
  enh_height :: int
  enh_ppi_horizontal :: int
  enh_ppi_vertical :: int
  enh_width_inches :: rat
  enh_height_inches :: rat
  enh_file_path :: string
  enh_format :: string

text \<open>\<^verbatim>\<open>ImageProcessor.enhance_image\<close>, returning the result dict and the file system.\<close>

definition enhance_image ::
  "('fs, 'k) libs \<Rightarrow> image_processor \<Rightarrow> 'fs \<Rightarrow> string \<Rightarrow> string \<Rightarrow> int option \<Rightarrow> int option
     \<Rightarrow> int \<Rightarrow> int \<Rightarrow> bool \<Rightarrow> enhance_info py_result \<times> 'fs" where
  "enhance_image lib self fs input_path output_path target_width target_height
       ppi_horizontal ppi_vertical maintain_aspect =
     (case esrgan_model self of
        None \<Rightarrow> (Failure (Text ''ESRGAN model not initialized''), fs)
      | Some model \<Rightarrow>
         (case imread lib fs input_path of
            None \<Rightarrow> (Failure (Text (''Failed to read image from '' @ input_path)), fs)
          | Some original_img \<Rightarrow>
             (case shape original_img of
                (original_height, original_width) \<Rightarrow>
                  (case target_dimensions original_width original_height
                          target_width target_height maintain_aspect of
                     Inl e \<Rightarrow> (Failure (Str_of (ArithmeticError e)), fs)
                   | Inr (target_width, target_height) \<Rightarrow>
                      (case upscale_image lib model fs input_path of
                         Inl e \<Rightarrow> (Failure (Str_of e), fs)
                       | Inr upscaled_img \<Rightarrow>
                          (case resize_to_target lib upscaled_img target_width target_height of
                             Inl e \<Rightarrow> (Failure (Str_of e), fs)
                           | Inr final_img \<Rightarrow>
                              (let final_img_rgb = cvtColor_BGR2RGB lib final_img;
                                   output_ext = str_lower lib (path_suffix lib output_path)
                               in case pil_save lib fs output_path final_img_rgb
                                         (save_args_for output_ext (ppi_horizontal, ppi_vertical)) of
                                    (fs', Some e) \<Rightarrow> (Failure (Str_of e), fs')
                                  | (fs', None) \<Rightarrow>
                                     (case int_truediv target_width ppi_horizontal of
                                        Inl e \<Rightarrow> (Failure (Str_of (ArithmeticError e)), fs')
                                      | Inr width_inches \<Rightarrow>
                                         (case int_truediv target_height ppi_vertical of
                                            Inl e \<Rightarrow> (Failure (Str_of (ArithmeticError e)), fs')
                                          | Inr height_inches \<Rightarrow>
                                             (Success
                                                \<lparr> enh_width = target_width,
                                                  enh_height = target_height,
                                                  enh_ppi_horizontal = ppi_horizontal,
                                                  enh_ppi_vertical = ppi_vertical,
                                                  enh_width_inches = py_round2 width_inches,
                                                  enh_height_inches = py_round2 height_inches,
                                                  enh_file_path = output_path,
                                                  enh_format = format_of lib output_ext \<rparr>,
                                              fs'))))))))))"


section \<open>A library instance\<close>

text \<open>
  A small instance of the library parameters, used to instantiate the theorems
  below at concrete inputs: one readable two-pixel file \<^verbatim>\<open>in.png\<close>, an edge
  detector that finds no edge, filters that return their input, and a file
  system that is the list of the paths written.
\<close>

definition plain_lib :: "(string list, unit) libs" where
  "plain_lib =
     \<lparr> imread = (\<lambda>fs p. if p = ''in.png'' then Some [[(10, 20, 30), (40, 50, 60)]] else None),
       imwrite = (\<lambda>fs p img params. (p # fs, None)),
       cvtColor_BGR2GRAY = map (map fst),
       GaussianBlur = (\<lambda>img k s. img),
       bilateralFilter = (\<lambda>img d c s. img),
       Canny = (\<lambda>img t1 t2 a l. map (map (\<lambda>p. 0)) img),
       getStructuringElement = (\<lambda>s k. ()),
       dilate = (\<lambda>img k n. img),
       morphologyEx_CLOSE = (\<lambda>img k. img),
       threshold_otsu = (\<lambda>img. img),
       median = (\<lambda>img. 0),
       path_suffix = (\<lambda>p. drop (length p - 4) p),
       str_lower = (\<lambda>s. s),
       str_upper = (\<lambda>s. s),
       realesrgan_enhance = (\<lambda>img s. Inr img),
       resize = (\<lambda>img d i. Inr img),
       cvtColor_BGR2RGB = (\<lambda>img. img),
       pil_save = (\<lambda>fs p img args. (p # fs, None)) \<rparr>"



section \<open>Properties of the rounding model\<close>

lemma rhe_cases:
  "(round_half_even r = \<lfloor>r\<rfloor> \<and> r - of_int \<lfloor>r\<rfloor> \<le> 1/2) \<or> (round_half_even r = \<lfloor>r\<rfloor> + 1 \<and> 1/2 \<le> r - of_int \<lfloor>r\<rfloor>)"
  by (auto simp: round_half_even_def Let_def)

lemma rhe_unique:
  assumes "\<bar>of_int n - r\<bar> < 1/2"
  shows "round_half_even r = n"
proof -
  have f: "of_int \<lfloor>r\<rfloor> \<le> r" "r < of_int \<lfloor>r\<rfloor> + 1" by linarith+
  from rhe_cases[of r] show ?thesis
  proof
    assume a: "round_half_even r = \<lfloor>r\<rfloor> \<and> r - of_int \<lfloor>r\<rfloor> \<le> 1/2"
    then have b: "r - of_int \<lfloor>r\<rfloor> \<le> 1/2" by blast
    have "\<bar>(of_int n :: rat) - of_int \<lfloor>r\<rfloor>\<bar> < 1" using b assms f by linarith
    then have "\<bar>n - \<lfloor>r\<rfloor>\<bar> < 1" by (metis of_int_abs of_int_diff of_int_less_1_iff)
    with a show ?thesis by simp
  next
    assume a: "round_half_even r = \<lfloor>r\<rfloor> + 1 \<and> 1/2 \<le> r - of_int \<lfloor>r\<rfloor>"
    then have b: "1/2 \<le> r - of_int \<lfloor>r\<rfloor>" by blast
    have "\<bar>(of_int n :: rat) - (of_int \<lfloor>r\<rfloor> + 1)\<bar> < 1" using b assms f by linarith
    then have "\<bar>(of_int n :: rat) - of_int (\<lfloor>r\<rfloor> + 1)\<bar> < 1" by simp
    then have "\<bar>n - (\<lfloor>r\<rfloor> + 1)\<bar> < 1" by (metis of_int_abs of_int_diff of_int_less_1_iff)
    with a show ?thesis by simp
  qed
qed

lemma rhe_of_int: "round_half_even (of_int n) = n"
  by (rule rhe_unique) simp

lemma rhe_le:
  assumes "r \<le> of_int N" shows "round_half_even r \<le> N"
proof -
  have f: "of_int \<lfloor>r\<rfloor> \<le> r" by linarith
  from rhe_cases[of r] show ?thesis
  proof
    assume a: "round_half_even r = \<lfloor>r\<rfloor> \<and> r - of_int \<lfloor>r\<rfloor> \<le> 1/2"
    have "\<lfloor>r\<rfloor> \<le> N" using assms f by (metis le_floor_iff floor_of_int floor_mono)
    with a show ?thesis by simp
  next
    assume a: "round_half_even r = \<lfloor>r\<rfloor> + 1 \<and> 1/2 \<le> r - of_int \<lfloor>r\<rfloor>"
    then have "(of_int \<lfloor>r\<rfloor> :: rat) < of_int N" using assms by linarith
    then have "\<lfloor>r\<rfloor> < N" by simp
    with a show ?thesis by simp
  qed
qed

lemma rhe_ge:
  assumes "of_int N \<le> r" shows "N \<le> round_half_even r"
proof -
  have "N \<le> \<lfloor>r\<rfloor>" using assms by (simp add: le_floor_iff)
  with rhe_cases[of r] show ?thesis by auto
qed


lemma ilog2_bounds:
  assumes "q \<noteq> 0"
  shows "2 powi ilog2 q \<le> \<bar>q\<bar>" and "\<bar>q\<bar> < 2 powi (ilog2 q + 1)"
proof -
  have "2 powi ilog2 q \<le> \<bar>q\<bar> \<and> \<bar>q\<bar> < 2 powi (ilog2 q + 1)"
  proof (cases "1 \<le> \<bar>q\<bar>")
    case True
    define m where "m = \<lfloor>\<bar>q\<bar>\<rfloor>"
    have m1: "1 \<le> m" using True by (simp add: m_def le_floor_iff)
    then have mpos: "0 < m" by simp
    have b1: "1 \<le> bitlen m" using mpos by (simp add: bitlen_alt_def)
    have e: "ilog2 q = bitlen m - 1" using True by (simp add: ilog2_def m_def)
    from bitlen_bounds[OF mpos]
    have lo: "2 ^ nat (bitlen m - 1) \<le> m" and hi: "m < 2 ^ nat (bitlen m)" by blast+
    have mq: "of_int m \<le> \<bar>q\<bar>" "\<bar>q\<bar> < of_int m + 1" unfolding m_def by linarith+
    have "(2::rat) powi (bitlen m - 1) = of_int (2 ^ nat (bitlen m - 1))"
      using b1 by (simp add: power_int_def)
    also have "\<dots> \<le> of_int m" using lo by (simp only: of_int_le_iff)
    finally have A: "2 powi ilog2 q \<le> \<bar>q\<bar>" using mq e by simp
    have "m + 1 \<le> 2 ^ nat (bitlen m)" using hi by simp
    then have "(of_int (m + 1) :: rat) \<le> of_int (2 ^ nat (bitlen m))" by (simp only: of_int_le_iff)
    also have "\<dots> = 2 powi (bitlen m)" using b1 by (simp add: power_int_def)
    finally have B: "\<bar>q\<bar> < 2 powi (ilog2 q + 1)" using mq e by simp
    from A B show ?thesis ..
  next
    case False
    define r where "r = 1 / \<bar>q\<bar>"
    define m where "m = \<lceil>r\<rceil> - 1"
    have qpos: "0 < \<bar>q\<bar>" using assms by simp
    have r1: "1 < r" using False qpos by (simp add: r_def)
    have "1 < \<lceil>r\<rceil>" using r1 by (simp add: less_ceiling_iff)
    then have mpos: "0 < m" by (simp add: m_def)
    have b1: "1 \<le> bitlen m" using mpos by (simp add: bitlen_alt_def)
    have e: "ilog2 q = - bitlen m" using False by (simp add: ilog2_def m_def r_def)
    from bitlen_bounds[OF mpos]
    have lo: "2 ^ nat (bitlen m - 1) \<le> m" and hi: "m < 2 ^ nat (bitlen m)" by blast+
    have mr: "of_int m < r" "r \<le> of_int m + 1" unfolding m_def by (simp_all) linarith+
    have "m + 1 \<le> 2 ^ nat (bitlen m)" using hi by simp
    then have "(of_int (m + 1) :: rat) \<le> of_int (2 ^ nat (bitlen m))" by (simp only: of_int_le_iff)
    also have "\<dots> = 2 powi (bitlen m)" using b1 by (simp add: power_int_def)
    finally have "r \<le> 2 powi (bitlen m)" using mr by simp
    then have "1 / (2 powi (bitlen m)) \<le> 1 / r" using r1 by (simp add: frac_le)
    then have A: "2 powi ilog2 q \<le> \<bar>q\<bar>" using e qpos by (simp add: r_def power_int_minus_divide)
    have "(2::rat) powi (bitlen m - 1) = of_int (2 ^ nat (bitlen m - 1))"
      using b1 by (simp add: power_int_def)
    also have "\<dots> \<le> of_int m" using lo by (simp only: of_int_le_iff)
    finally have "2 powi (bitlen m - 1) < r" using mr by simp
    then have "1 / r < 1 / (2 powi (bitlen m - 1))" by (simp add: frac_less2)
    moreover have "(1::rat) / (2 powi (bitlen m - 1)) = 2 powi (- bitlen m + 1)"
      by (simp add: power_int_minus_divide[symmetric])
    ultimately have B: "\<bar>q\<bar> < 2 powi (ilog2 q + 1)" using e qpos by (simp add: r_def)
    from A B show ?thesis ..
  qed
  then show "2 powi ilog2 q \<le> \<bar>q\<bar>" and "\<bar>q\<bar> < 2 powi (ilog2 q + 1)" by blast+
qed

lemma ilog2_unique:
  assumes "2 powi e \<le> \<bar>q\<bar>" "\<bar>q\<bar> < 2 powi (e + 1)"
  shows "ilog2 q = e"
proof -
  have "(0::rat) < 2 powi e" by simp
  with assms(1) have "0 < \<bar>q\<bar>" by linarith
  then have q0: "q \<noteq> 0" by simp
  note b = ilog2_bounds[OF q0]
  have "(2::rat) powi e < 2 powi (ilog2 q + 1)" using assms(1) b(2) by linarith
  then have 1: "e < ilog2 q + 1"
    by (metis not_le power_int_increasing one_le_numeral)
  have "(2::rat) powi ilog2 q < 2 powi (e + 1)" using assms(2) b(1) by linarith
  then have 2: "ilog2 q < e + 1"
    by (metis not_le power_int_increasing one_le_numeral)
  from 1 2 show ?thesis by simp
qed

lemma rhe_abs_le: "\<bar>r\<bar> \<le> of_int N \<Longrightarrow> \<bar>round_half_even r\<bar> \<le> N"
  using rhe_le[of r N] rhe_ge[of "- N" r] by simp linarith

lemma rhe_abs_ge:
  assumes "of_int N \<le> \<bar>r\<bar>" shows "N \<le> \<bar>round_half_even r\<bar>"
proof (cases "0 \<le> r")
  case True
  with assms rhe_ge[of N r] show ?thesis by simp
next
  case False
  with assms have "r \<le> of_int (- N)" by simp
  from rhe_le[OF this] show ?thesis by simp
qed

lemma fl_ulp: "q \<noteq> 0 \<Longrightarrow> fl q = of_int (round_half_even (q / 2 powi ulp_exp q)) * 2 powi ulp_exp q"
  by (simp add: fl_def Let_def)

lemma pow2_int: "0 \<le> d \<Longrightarrow> (2::rat) powi d = of_int (2 ^ nat d)"
  by (simp add: power_int_def)

lemma pow2_split: "(2::rat) powi k = 2 powi (k - e) * 2 powi e"
  by (simp flip: power_int_add)

lemma fl_abs_le_gen:
  assumes "\<bar>q\<bar> \<le> 2 powi k" "ulp_exp q \<le> k"
  shows "\<bar>fl q\<bar> \<le> 2 powi k"
proof (cases "q = 0")
  case True then show ?thesis by (simp add: fl_def)
next
  case False
  define u :: rat where "u = 2 powi ulp_exp q"
  define N :: int where "N = 2 ^ nat (k - ulp_exp q)"
  have upos: "0 < u" by (simp add: u_def)
  have N: "of_int N * u = 2 powi k"
    using assms(2) pow2_split[of k "ulp_exp q"] by (simp add: N_def u_def pow2_int)
  have "\<bar>q / u\<bar> = \<bar>q\<bar> / u" using upos by (simp add: abs_divide)
  moreover have "\<bar>q\<bar> / u \<le> of_int N" using assms(1) upos N by (simp add: pos_divide_le_eq)
  ultimately have "\<bar>q / u\<bar> \<le> of_int N" by (simp only:)
  then have "\<bar>round_half_even (q / u)\<bar> \<le> N" by (rule rhe_abs_le)
  then have "\<bar>of_int (round_half_even (q / u)) :: rat\<bar> \<le> of_int N"
    by (metis of_int_abs of_int_le_iff)
  then have "\<bar>of_int (round_half_even (q / u)) * u\<bar> \<le> of_int N * u"
    using upos by (simp add: abs_mult)
  then show ?thesis using False N by (simp add: fl_ulp u_def)
qed

lemma fl_abs_ge_gen:
  assumes "2 powi k \<le> \<bar>q\<bar>" "ulp_exp q \<le> k"
  shows "2 powi k \<le> \<bar>fl q\<bar>"
proof -
  have "(0::rat) < 2 powi k" by simp
  with assms(1) have "0 < \<bar>q\<bar>" by linarith
  then have q0: "q \<noteq> 0" by simp
  define u :: rat where "u = 2 powi ulp_exp q"
  define N :: int where "N = 2 ^ nat (k - ulp_exp q)"
  have upos: "0 < u" by (simp add: u_def)
  have N: "of_int N * u = 2 powi k"
    using assms(2) pow2_split[of k "ulp_exp q"] by (simp add: N_def u_def pow2_int)
  have "\<bar>q / u\<bar> = \<bar>q\<bar> / u" using upos by (simp add: abs_divide)
  moreover have "of_int N \<le> \<bar>q\<bar> / u" using assms(1) upos N by (simp add: pos_le_divide_eq)
  ultimately have "of_int N \<le> \<bar>q / u\<bar>" by (simp only:)
  then have "N \<le> \<bar>round_half_even (q / u)\<bar>" by (rule rhe_abs_ge)
  then have "of_int N \<le> \<bar>of_int (round_half_even (q / u)) :: rat\<bar>"
    by (metis of_int_abs of_int_le_iff)
  then have "of_int N * u \<le> \<bar>of_int (round_half_even (q / u)) * u\<bar>"
    using upos by (simp add: abs_mult)
  then show ?thesis using q0 N by (simp add: fl_ulp u_def)
qed

lemma ilog2_le:
  assumes "q \<noteq> 0" "\<bar>q\<bar> \<le> 2 powi k" shows "ilog2 q \<le> k"
proof -
  have "(2::rat) powi ilog2 q \<le> 2 powi k" using ilog2_bounds(1)[OF assms(1)] assms(2) by linarith
  then show ?thesis by (metis not_le power_int_strict_increasing one_less_numeral_iff semiring_norm(76))
qed

lemma ilog2_ge:
  assumes "2 powi k \<le> \<bar>q\<bar>" shows "k \<le> ilog2 q"
proof -
  have "(0::rat) < 2 powi k" by simp
  with assms(1) have "0 < \<bar>q\<bar>" by linarith
  then have q0: "q \<noteq> 0" by simp
  have "(2::rat) powi k < 2 powi (ilog2 q + 1)" using ilog2_bounds(2)[OF q0] assms by linarith
  then have "k < ilog2 q + 1" by (metis not_le power_int_increasing one_le_numeral)
  then show ?thesis by simp
qed

lemma fl_abs_le:
  assumes "\<bar>q\<bar> \<le> 2 powi k" "- 1074 \<le> k"
  shows "\<bar>fl q\<bar> \<le> 2 powi k"
proof (cases "q = 0")
  case True then show ?thesis by (simp add: fl_def)
next
  case False
  from ilog2_le[OF False assms(1)] assms(2) have "ulp_exp q \<le> k" by (simp add: ulp_exp_def)
  with assms(1) show ?thesis by (rule fl_abs_le_gen)
qed

lemma fl_abs_ge:
  assumes "2 powi k \<le> \<bar>q\<bar>" "- 1074 \<le> k"
  shows "2 powi k \<le> \<bar>fl q\<bar>"
proof (cases "- 1022 \<le> ilog2 q")
  case True
  have q0: "q \<noteq> 0" using assms(1) ilog2_ge by (metis abs_zero not_le zero_less_power_int zero_less_numeral)
  have "ulp_exp q \<le> ilog2 q" using True by (simp add: ulp_exp_def)
  from fl_abs_ge_gen[OF ilog2_bounds(1)[OF q0] this]
  have "2 powi ilog2 q \<le> \<bar>fl q\<bar>" .
  moreover have "(2::rat) powi k \<le> 2 powi ilog2 q"
    using ilog2_ge[OF assms(1)] by (simp add: power_int_increasing)
  ultimately show ?thesis by linarith
next
  case False
  then have "ulp_exp q \<le> k" using assms(2) by (simp add: ulp_exp_def)
  with assms(1) show ?thesis by (rule fl_abs_ge_gen)
qed

lemma fl_exact:
  assumes "q = of_int n * 2 powi ulp_exp q"
  shows "fl q = q"
proof (cases "q = 0")
  case True then show ?thesis by (simp add: fl_def)
next
  case False
  have "q / 2 powi ulp_exp q = of_int n" using assms by (simp add: field_simps)
  then show ?thesis using False assms by (simp add: fl_ulp rhe_of_int)
qed

lemma fl_of_int:
  assumes "\<bar>n\<bar> \<le> 2 ^ 53"
  shows "fl (of_int n) = of_int n"
proof (cases "n = 0")
  case True then show ?thesis by (simp add: fl_def)
next
  case False
  define q :: rat where "q = of_int n"
  have q0: "q \<noteq> 0" using False by (simp add: q_def)
  have "\<bar>q\<bar> \<le> 2 powi 53" using assms unfolding q_def
    by (metis of_int_abs of_int_le_iff of_int_numeral of_int_power power_int_numeral)
  from ilog2_le[OF q0 this] have up: "ilog2 q \<le> 53" .
  have "1 \<le> \<bar>n\<bar>" using False by simp
  then have "2 powi 0 \<le> \<bar>q\<bar>" unfolding q_def by (metis of_int_abs of_int_1_le_iff power_int_0_right)
  from ilog2_ge[OF this] have lo: "0 \<le> ilog2 q" .
  have ue: "ulp_exp q = ilog2 q - 52" using lo by (simp add: ulp_exp_def)
  show ?thesis
  proof (cases "ilog2 q = 53")
    case True
    have "2 powi 53 \<le> \<bar>q\<bar>" using ilog2_bounds(1)[OF q0] True by simp
    with \<open>\<bar>q\<bar> \<le> 2 powi 53\<close> have "\<bar>q\<bar> = 2 ^ 53" by simp
    then have "q = of_int (if 0 \<le> n then 2 ^ 52 else - (2 ^ 52)) * 2 powi ulp_exp q"
      using ue True by (auto simp: q_def abs_if split: if_splits)
    then show ?thesis unfolding q_def[symmetric] by (rule fl_exact)
  next
    case False
    with up have "ilog2 q \<le> 52" by simp
    then have "0 \<le> - ulp_exp q" using ue by simp
    have "q = of_int n * (2 powi (- ulp_exp q) * 2 powi ulp_exp q)"
      by (simp add: q_def flip: power_int_add)
    also have "\<dots> = of_int (n * 2 ^ nat (- ulp_exp q)) * 2 powi ulp_exp q"
      using pow2_int[OF \<open>0 \<le> - ulp_exp q\<close>] by simp
    finally show ?thesis unfolding q_def[symmetric] by (rule fl_exact)
  qed
qed

lemma fl_eqI:
  assumes "2 powi e \<le> \<bar>q\<bar>" "\<bar>q\<bar> < 2 powi (e + 1)" "- 1022 \<le> e"
    and "\<bar>of_int n - q / 2 powi (e - 52)\<bar> < 1 / 2"
  shows "fl q = of_int n * 2 powi (e - 52)"
proof -
  have "(0::rat) < 2 powi e" by simp
  with assms(1) have "0 < \<bar>q\<bar>" by linarith
  then have q0: "q \<noteq> 0" by simp
  have "ilog2 q = e" using assms(1,2) by (rule ilog2_unique)
  then have "ulp_exp q = e - 52" using assms(3) by (simp add: ulp_exp_def)
  then show ?thesis using q0 rhe_unique[OF assms(4)] by (simp add: fl_ulp)
qed








section \<open>Outline extraction\<close>

lemma shape_map: "shape (map (map f) img) = shape img"
  by (cases img) (simp_all add: shape_def)

lemma invert_and_binarize_pixels:
  "invert_and_binarize img = map (map (\<lambda>p. if 127 < NOT p then 255 else 0)) img"
  by (simp add: invert_and_binarize_def threshold_binary_def bitwise_not_def comp_def)

lemma clamp_thickness_range: "1 \<le> clamp_thickness self thickness \<and> clamp_thickness self thickness \<le> 5"
  by (simp add: clamp_thickness_def split: option.split)

lemma clamp_thickness_Some: "clamp_thickness self (Some t) = max 1 (min 5 t)"
  by (simp add: clamp_thickness_def)

lemma clamp_thickness_None: "clamp_thickness self None = max 1 (min 5 (default_thickness self))"
  by (simp add: clamp_thickness_def)

lemma clamp_thickness_idem: "clamp_thickness self (Some (max 1 (min 5 t))) = clamp_thickness self (Some t)"
  by (simp add: clamp_thickness_def)

lemma extract_outline_reports:
  assumes "extract_outline lib self fs input_path output_path thickness = (Success info, fs')"
  shows "out_thickness info = clamp_thickness self thickness"
proof (cases "imread lib fs input_path")
  case None
  with assms show ?thesis by (simp add: extract_outline_def Let_def)
next
  case (Some img)
  obtain fs2 e where w: "imwrite lib fs output_path
      (outline_steps lib self (clamp_thickness self thickness) img)
      (imwrite_params (str_lower lib (path_suffix lib output_path))) = (fs2, e)"
    by (cases "imwrite lib fs output_path
      (outline_steps lib self (clamp_thickness self thickness) img)
      (imwrite_params (str_lower lib (path_suffix lib output_path)))") auto
  show ?thesis
  proof (cases e)
    case None
    with assms Some w show ?thesis
      by (auto simp: extract_outline_def Let_def split: prod.splits)
  next
    case (Some x)
    with assms \<open>imread lib fs input_path = Some img\<close> w show ?thesis
      by (simp add: extract_outline_def Let_def)
  qed
qed

lemma extract_outline_with_detail_reports:
  assumes "extract_outline_with_detail lib self fs input_path output_path thickness level = (Success info, fs')"
  shows "out_thickness info = clamp_thickness self thickness"
  using assms unfolding extract_outline_with_detail_def Let_def
  by (auto split: option.splits prod.splits if_splits)

lemma extract_outline_advanced_reports:
  assumes "extract_outline_advanced lib self fs input_path output_path thickness auto = (Success info, fs')"
  shows "out_thickness info = clamp_thickness self thickness"
  using assms unfolding extract_outline_advanced_def Let_def
  by (auto split: option.splits prod.splits sum.splits if_splits)


lemma kernel_in_range:
  assumes "lib' = lib\<lparr>getStructuringElement := \<lambda>s k. if fst k = snd k \<and> 2 \<le> fst k \<and> fst k \<le> 5
                                              then getStructuringElement lib s k else other s k\<rparr>"
  shows "imread lib' = imread lib" "imwrite lib' = imwrite lib"
    "cvtColor_BGR2GRAY lib' = cvtColor_BGR2GRAY lib" "GaussianBlur lib' = GaussianBlur lib"
    "bilateralFilter lib' = bilateralFilter lib" "Canny lib' = Canny lib" "dilate lib' = dilate lib"
    "morphologyEx_CLOSE lib' = morphologyEx_CLOSE lib" "threshold_otsu lib' = threshold_otsu lib"
    "median lib' = median lib" "path_suffix lib' = path_suffix lib" "str_lower lib' = str_lower lib"
    "str_upper lib' = str_upper lib"
    "getStructuringElement lib' MORPH_ELLIPSE (3, 3) = getStructuringElement lib MORPH_ELLIPSE (3, 3)"
    "(if 1 < clamp_thickness self thickness
      then dilate lib e (getStructuringElement lib' MORPH_ELLIPSE
             (clamp_thickness self thickness, clamp_thickness self thickness)) 1 else e)
     = (if 1 < clamp_thickness self thickness
        then dilate lib e (getStructuringElement lib MORPH_ELLIPSE
               (clamp_thickness self thickness, clamp_thickness self thickness)) 1 else e)"
  using clamp_thickness_range[of self thickness] by (simp_all add: assms)

lemma extract_outline_kernel:
  assumes "lib' = lib\<lparr>getStructuringElement := \<lambda>s k. if fst k = snd k \<and> 2 \<le> fst k \<and> fst k \<le> 5
                                              then getStructuringElement lib s k else other s k\<rparr>"
  shows "extract_outline lib' self fs input_path output_path thickness
     = extract_outline lib self fs input_path output_path thickness"
  unfolding extract_outline_def outline_steps_def format_of_def Let_def kernel_in_range[OF assms] ..

lemma extract_outline_advanced_kernel:
  assumes "lib' = lib\<lparr>getStructuringElement := \<lambda>s k. if fst k = snd k \<and> 2 \<le> fst k \<and> fst k \<le> 5
                                              then getStructuringElement lib s k else other s k\<rparr>"
  shows "extract_outline_advanced lib' self fs input_path output_path thickness auto
     = extract_outline_advanced lib self fs input_path output_path thickness auto"
  unfolding extract_outline_advanced_def scaled_median_def format_of_def Let_def kernel_in_range[OF assms] ..

lemma extract_outline_with_detail_kernel:
  assumes "lib' = lib\<lparr>getStructuringElement := \<lambda>s k. if fst k = snd k \<and> 2 \<le> fst k \<and> fst k \<le> 5
                                              then getStructuringElement lib s k else other s k\<rparr>"
  shows "extract_outline_with_detail lib' self fs input_path output_path thickness level
     = extract_outline_with_detail lib self fs input_path output_path thickness level"
  unfolding extract_outline_with_detail_def Let_def kernel_in_range[OF assms] ..


lemma extract_outline_clamped:
  "extract_outline lib self fs input_path output_path (Some (max 1 (min 5 t)))
     = extract_outline lib self fs input_path output_path (Some t)"
  unfolding extract_outline_def clamp_thickness_idem ..

lemma extract_outline_advanced_clamped:
  "extract_outline_advanced lib self fs input_path output_path (Some (max 1 (min 5 t))) auto
     = extract_outline_advanced lib self fs input_path output_path (Some t) auto"
  unfolding extract_outline_advanced_def clamp_thickness_idem ..

lemma extract_outline_with_detail_clamped:
  "extract_outline_with_detail lib self fs input_path output_path (Some (max 1 (min 5 t))) level
     = extract_outline_with_detail lib self fs input_path output_path (Some t) level"
  unfolding extract_outline_with_detail_def clamp_thickness_idem ..

text \<open>
  Claim C4. In each of the three extraction variants the requested thickness is
  clamped to the range 1 to 5 before anything else happens. A request of 7 gives
  the result of a request of 5, a request of \<open>- 3\<close> the result of a request of 1,
  and any request \<open>t\<close> the result of \<open>max 1 (min 5 t)\<close>, whatever the library
  operations, the extractor's configuration, the file system and the paths are.
  The thickness every variant works with is \<open>clamp_thickness\<close>: it lies between 1
  and 5, it is \<open>max 1 (min 5 t)\<close> for a request \<open>t\<close> and the clamped default
  thickness when none is requested, and it is the thickness a successful call
  reports. No size outside the range reaches the construction of a structuring
  element: a variant's result does not change when the kernel constructor is
  replaced, at every size other than (2, 2), (3, 3), (4, 4) and (5, 5), by an
  arbitrary function \<open>other\<close>.
\<close>

theorem thickness_clamped:
  "extract_outline lib self fs input_path output_path (Some 7)
     = extract_outline lib self fs input_path output_path (Some 5)
   \<and> extract_outline lib self fs input_path output_path (Some (- 3))
     = extract_outline lib self fs input_path output_path (Some 1)
   \<and> extract_outline_advanced lib self fs input_path output_path (Some 7) auto
     = extract_outline_advanced lib self fs input_path output_path (Some 5) auto
   \<and> extract_outline_advanced lib self fs input_path output_path (Some (- 3)) auto
     = extract_outline_advanced lib self fs input_path output_path (Some 1) auto
   \<and> extract_outline_with_detail lib self fs input_path output_path (Some 7) level
     = extract_outline_with_detail lib self fs input_path output_path (Some 5) level
   \<and> extract_outline_with_detail lib self fs input_path output_path (Some (- 3)) level
     = extract_outline_with_detail lib self fs input_path output_path (Some 1) level
   \<and> extract_outline lib self fs input_path output_path (Some t)
     = extract_outline lib self fs input_path output_path (Some (max 1 (min 5 t)))
   \<and> extract_outline_advanced lib self fs input_path output_path (Some t) auto
     = extract_outline_advanced lib self fs input_path output_path (Some (max 1 (min 5 t))) auto
   \<and> extract_outline_with_detail lib self fs input_path output_path (Some t) level
     = extract_outline_with_detail lib self fs input_path output_path (Some (max 1 (min 5 t))) level
   \<and> 1 \<le> clamp_thickness self thickness \<and> clamp_thickness self thickness \<le> 5
   \<and> clamp_thickness self (Some t) = max 1 (min 5 t)
   \<and> clamp_thickness self None = max 1 (min 5 (default_thickness self))
   \<and> (extract_outline lib self fs input_path output_path (Some t) = (Success info, fs')
        \<longrightarrow> out_thickness info = max 1 (min 5 t))
   \<and> (extract_outline_advanced lib self fs input_path output_path (Some t) auto = (Success info, fs')
        \<longrightarrow> out_thickness info = max 1 (min 5 t))
   \<and> (extract_outline_with_detail lib self fs input_path output_path (Some t) level = (Success info, fs')
        \<longrightarrow> out_thickness info = max 1 (min 5 t))
   \<and> extract_outline
        (lib\<lparr>getStructuringElement := \<lambda>s k. if fst k = snd k \<and> 2 \<le> fst k \<and> fst k \<le> 5
                                              then getStructuringElement lib s k else other s k\<rparr>)
        self fs input_path output_path thickness
     = extract_outline lib self fs input_path output_path thickness
   \<and> extract_outline_advanced
        (lib\<lparr>getStructuringElement := \<lambda>s k. if fst k = snd k \<and> 2 \<le> fst k \<and> fst k \<le> 5
                                              then getStructuringElement lib s k else other s k\<rparr>)
        self fs input_path output_path thickness auto
     = extract_outline_advanced lib self fs input_path output_path thickness auto
   \<and> extract_outline_with_detail
        (lib\<lparr>getStructuringElement := \<lambda>s k. if fst k = snd k \<and> 2 \<le> fst k \<and> fst k \<le> 5
                                              then getStructuringElement lib s k else other s k\<rparr>)
        self fs input_path output_path thickness level
     = extract_outline_with_detail lib self fs input_path output_path thickness level"
proof (intro conjI impI)
  show "extract_outline lib self fs input_path output_path (Some 7)
     = extract_outline lib self fs input_path output_path (Some 5)"
    using extract_outline_clamped[of lib self fs input_path output_path 7] by simp
  show "extract_outline lib self fs input_path output_path (Some (- 3))
     = extract_outline lib self fs input_path output_path (Some 1)"
    using extract_outline_clamped[of lib self fs input_path output_path "- 3"] by simp
  show "extract_outline_advanced lib self fs input_path output_path (Some 7) auto
     = extract_outline_advanced lib self fs input_path output_path (Some 5) auto"
    using extract_outline_advanced_clamped[of lib self fs input_path output_path 7 auto] by simp
  show "extract_outline_advanced lib self fs input_path output_path (Some (- 3)) auto
     = extract_outline_advanced lib self fs input_path output_path (Some 1) auto"
    using extract_outline_advanced_clamped[of lib self fs input_path output_path "- 3" auto] by simp
  show "extract_outline_with_detail lib self fs input_path output_path (Some 7) level
     = extract_outline_with_detail lib self fs input_path output_path (Some 5) level"
    using extract_outline_with_detail_clamped[of lib self fs input_path output_path 7 level] by simp
  show "extract_outline_with_detail lib self fs input_path output_path (Some (- 3)) level
     = extract_outline_with_detail lib self fs input_path output_path (Some 1) level"
    using extract_outline_with_detail_clamped[of lib self fs input_path output_path "- 3" level] by simp
  show "extract_outline lib self fs input_path output_path (Some t)
     = extract_outline lib self fs input_path output_path (Some (max 1 (min 5 t)))"
    by (rule extract_outline_clamped[symmetric])
  show "extract_outline_advanced lib self fs input_path output_path (Some t) auto
     = extract_outline_advanced lib self fs input_path output_path (Some (max 1 (min 5 t))) auto"
    by (rule extract_outline_advanced_clamped[symmetric])
  show "extract_outline_with_detail lib self fs input_path output_path (Some t) level
     = extract_outline_with_detail lib self fs input_path output_path (Some (max 1 (min 5 t))) level"
    by (rule extract_outline_with_detail_clamped[symmetric])
  show "1 \<le> clamp_thickness self thickness" "clamp_thickness self thickness \<le> 5"
    using clamp_thickness_range[of self thickness] by simp_all
  show "clamp_thickness self (Some t) = max 1 (min 5 t)" by (rule clamp_thickness_Some)
  show "clamp_thickness self None = max 1 (min 5 (default_thickness self))"
    by (rule clamp_thickness_None)
  show "out_thickness info = max 1 (min 5 t)"
    if "extract_outline lib self fs input_path output_path (Some t) = (Success info, fs')"
    using extract_outline_reports[OF that] by (simp only: clamp_thickness_Some)
  show "out_thickness info = max 1 (min 5 t)"
    if "extract_outline_advanced lib self fs input_path output_path (Some t) auto = (Success info, fs')"
    using extract_outline_advanced_reports[OF that] by (simp only: clamp_thickness_Some)
  show "out_thickness info = max 1 (min 5 t)"
    if "extract_outline_with_detail lib self fs input_path output_path (Some t) level = (Success info, fs')"
    using extract_outline_with_detail_reports[OF that] by (simp only: clamp_thickness_Some)
  show "extract_outline
        (lib\<lparr>getStructuringElement := \<lambda>s k. if fst k = snd k \<and> 2 \<le> fst k \<and> fst k \<le> 5
                                              then getStructuringElement lib s k else other s k\<rparr>)
        self fs input_path output_path thickness
     = extract_outline lib self fs input_path output_path thickness"
    by (rule extract_outline_kernel) (rule refl)
  show "extract_outline_advanced
        (lib\<lparr>getStructuringElement := \<lambda>s k. if fst k = snd k \<and> 2 \<le> fst k \<and> fst k \<le> 5
                                              then getStructuringElement lib s k else other s k\<rparr>)
        self fs input_path output_path thickness auto
     = extract_outline_advanced lib self fs input_path output_path thickness auto"
    by (rule extract_outline_advanced_kernel) (rule refl)
  show "extract_outline_with_detail
        (lib\<lparr>getStructuringElement := \<lambda>s k. if fst k = snd k \<and> 2 \<le> fst k \<and> fst k \<le> 5
                                              then getStructuringElement lib s k else other s k\<rparr>)
        self fs input_path output_path thickness level
     = extract_outline_with_detail lib self fs input_path output_path thickness level"
    by (rule extract_outline_with_detail_kernel) (rule refl)
qed

theorem thickness_clamped_witness:
  "extract_outline plain_lib \<lparr>default_thickness = 1, canny_threshold1 = 50, canny_threshold2 = 150\<rparr>
       [] ''in.png'' ''out.png'' (Some 7)
     = (Success \<lparr>out_width = 2, out_height = 1, out_thickness = 5, out_file_path = ''out.png'',
                 out_format = Some ''png'', out_auto_threshold = None, out_detail_level = None\<rparr>,
        [''out.png''])
   \<and> out_thickness \<lparr>out_width = 2, out_height = 1, out_thickness = 5, out_file_path = ''out.png'',
                 out_format = Some ''png'', out_auto_threshold = None, out_detail_level = None\<rparr>
     = max 1 (min 5 7)"
  using thickness_clamped[where lib = plain_lib and fs = "[]" and input_path = "''in.png''"
      and output_path = "''out.png''" and t = 7 and auto = True and level = "''medium''"
      and thickness = "Some 7" and other = "\<lambda>s k. ()"
      and info = "\<lparr>out_width = 2, out_height = 1, out_thickness = 5, out_file_path = ''out.png'',
                 out_format = Some ''png'', out_auto_threshold = None, out_detail_level = None\<rparr>"
      and fs' = "[''out.png'']"
      and self = "\<lparr>default_thickness = 1, canny_threshold1 = 50, canny_threshold2 = 150\<rparr>"]
  by (simp add: extract_outline_def outline_steps_def plain_lib_def clamp_thickness_def
      invert_and_binarize_pixels shape_def format_of_def imwrite_params_def)

text \<open>
  Claim C5, as stated, fails: the finishing step inverts before it thresholds, so
  applied to its own output it returns the negative of that output. On the
  one-pixel edge mask \<open>[[0]]\<close> the step gives a white pixel, and applied again a
  black one.
\<close>

theorem binarize_twice_counterexample:
  "invert_and_binarize (invert_and_binarize [[0]]) \<noteq> invert_and_binarize [[0]]"
  by (simp add: invert_and_binarize_pixels)

text \<open>
  Claim C5, amended. The output of the finishing step is a pure two-valued image
  (every sample is 0 or 255), and the binarize part alone, the threshold at 127,
  reproduces it; the whole invert-then-threshold step applied to its own output
  yields the negative of that output.
\<close>

theorem binarize_output_two_valued:
  "threshold_binary (invert_and_binarize img) 127 255 = invert_and_binarize img
   \<and> set (concat (invert_and_binarize img)) \<subseteq> {0, 255}
   \<and> invert_and_binarize (invert_and_binarize img) = bitwise_not (invert_and_binarize img)"
proof (intro conjI)
  show "threshold_binary (invert_and_binarize img) 127 255 = invert_and_binarize img"
    by (simp add: invert_and_binarize_pixels threshold_binary_def comp_def)
  show "set (concat (invert_and_binarize img)) \<subseteq> {0, 255}"
    by (auto simp: invert_and_binarize_pixels)
  show "invert_and_binarize (invert_and_binarize img) = bitwise_not (invert_and_binarize img)"
    by (simp add: invert_and_binarize_pixels bitwise_not_def comp_def)
qed


section \<open>Dimension resolver\<close>

lemma fl_val:
  assumes "2 powi e \<le> \<bar>q\<bar>" "\<bar>q\<bar> < 2 powi (e + 1)" "- 1022 \<le> e"
    and "\<bar>of_int n - q / 2 powi (e - 52)\<bar> < 1 / 2"
    and "r = of_int n * 2 powi (e - 52)"
  shows "fl q = r"
  using fl_eqI[OF assms(1-4)] assms(5) by simp


lemma ieee_finite:
  assumes "\<bar>q\<bar> \<le> 2 powi k" "- 1074 \<le> k" "k \<le> 1023"
  shows "ieee_result q = Finite (fl q)"
proof -
  have "\<bar>fl q\<bar> \<le> 2 powi k" using assms(1,2) by (rule fl_abs_le)
  also have "(2::rat) powi k \<le> 2 powi 1023" using assms(3) by (simp add: power_int_increasing del: power_int_numeral)
  also have "\<dots> < 2 ^ 1024" by simp
  finally have "\<bar>fl q\<bar> < 2 ^ 1024" .
  then show ?thesis by (auto simp: ieee_result_def Let_def)
qed

lemma of_int_abs_le_pow2:
  "\<bar>n\<bar> \<le> 2 ^ k \<Longrightarrow> \<bar>of_int n :: rat\<bar> \<le> 2 powi (int k)"
  by (metis of_int_abs of_int_le_iff of_int_numeral of_int_power power_int_of_nat)

lemma float_of_int_ok:
  assumes "\<bar>n\<bar> \<le> 2 ^ 1023"
  shows "float_of_int n = Inr (fl (of_int n))"
proof -
  have "\<bar>of_int n :: rat\<bar> \<le> 2 powi 1023" using of_int_abs_le_pow2[OF assms] by simp
  then have "ieee_result (of_int n) = Finite (fl (of_int n))" by (rule ieee_finite) simp_all
  then show ?thesis by (simp add: float_of_int_def)
qed

lemma abs_divide_int_le:
  assumes "b \<noteq> 0"
  shows "\<bar>of_int a / of_int b :: rat\<bar> \<le> \<bar>of_int a\<bar>"
proof -
  have "1 \<le> \<bar>b\<bar>" using assms by simp
  then have "(1::rat) \<le> \<bar>of_int b\<bar>" by (metis of_int_abs of_int_1_le_iff)
  then have "\<bar>of_int a :: rat\<bar> / \<bar>of_int b\<bar> \<le> \<bar>of_int a\<bar> / 1"
    by (intro divide_left_mono) auto
  then show ?thesis by (simp add: abs_divide)
qed

lemma int_truediv_ok:
  assumes "b \<noteq> 0" "\<bar>a\<bar> \<le> 2 ^ 1023"
  shows "int_truediv a b = Inr (fl (of_int a / of_int b))"
proof -
  have "\<bar>of_int a / of_int b :: rat\<bar> \<le> \<bar>of_int a\<bar>" using assms(1) by (rule abs_divide_int_le)
  also have "\<dots> \<le> 2 powi 1023" using of_int_abs_le_pow2[OF assms(2)] by simp
  finally have "ieee_result (of_int a / of_int b) = Finite (fl (of_int a / of_int b))"
    by (rule ieee_finite) simp_all
  then show ?thesis using assms(1) by (simp add: int_truediv_def)
qed

lemma int_truediv_zero: "int_truediv a 0 = Inl ZeroDivisionError"
  by (simp add: int_truediv_def)

text \<open>
  Claim C8, as stated for every original size, fails when the original height
  is 0: the aspect ratio \<^verbatim>\<open>original_width / original_height\<close> is computed before
  the targets are looked at, and the division raises ZeroDivisionError although
  no target is given.
\<close>

theorem identity_counterexample:
  "calculate_new_dimensions 5 0 None None True = Inl ZeroDivisionError"
  by (simp add: calculate_new_dimensions_def int_truediv_zero)

text \<open>
  Claim C8, amended. For every original size whose height is not 0 and whose
  width has a magnitude of at most \<open>2 ^ 1023\<close> (so that the aspect ratio is a
  finite float), the resolver called with no target width, no target height and
  maintain_aspect true returns the original size unchanged.
\<close>

theorem identity_without_targets:
  assumes "original_height \<noteq> 0" "\<bar>original_width\<bar> \<le> 2 ^ 1023"
  shows "calculate_new_dimensions original_width original_height None None True
           = Inr (original_width, original_height)"
  using int_truediv_ok[OF assms] by (simp add: calculate_new_dimensions_def)

theorem identity_without_targets_witness:
  "(600::int) \<noteq> 0 \<and> \<bar>800::int\<bar> \<le> 2 ^ 1023
   \<and> calculate_new_dimensions 800 600 None None True = Inr (800, 600)"
  using identity_without_targets[of 600 800] by simp

lemma ieee_result_val: "fl q = r \<Longrightarrow> \<bar>r\<bar> < 2 ^ 1024 \<Longrightarrow> ieee_result q = Finite r"
  by (auto simp: ieee_result_def Let_def)

lemma int_truediv_val:
  "fl (of_int a / of_int b) = r \<Longrightarrow> b \<noteq> 0 \<Longrightarrow> \<bar>r\<bar> < 2 ^ 1024 \<Longrightarrow> int_truediv a b = Inr r"
  by (simp add: int_truediv_def ieee_result_val)

lemma int_div_float_val:
  "fl (of_int n) = y \<Longrightarrow> fl (y / x) = r \<Longrightarrow> \<bar>y\<bar> < 2 ^ 1024 \<Longrightarrow> x \<noteq> 0 \<Longrightarrow> \<bar>r\<bar> < 2 ^ 1024
   \<Longrightarrow> int_div_float n x = Inr (Finite r)"
  by (simp add: int_div_float_def float_of_int_def ieee_result_val)

lemma int_mul_float_val:
  "fl (of_int n) = y \<Longrightarrow> fl (y * x) = r \<Longrightarrow> \<bar>y\<bar> < 2 ^ 1024 \<Longrightarrow> \<bar>r\<bar> < 2 ^ 1024
   \<Longrightarrow> int_mul_float n x = Inr (Finite r)"
  by (simp add: int_mul_float_def float_of_int_def ieee_result_val)

lemma float_sub_val: "fl (x - y) = r \<Longrightarrow> \<bar>r\<bar> < 2 ^ 1024 \<Longrightarrow> float_sub x y = Finite r"
  by (simp add: float_sub_def ieee_result_val)

lemma fl_hundredth: "fl (1 / 100) = 5764607523034235 / 576460752303423488"
  by (rule fl_val[where e="- 7" and n=5764607523034235]) simp_all

lemma aspect_800_600: "int_truediv 800 600 = Inr (6004799503160661 / 4503599627370496)"
proof (rule int_truediv_val)
  show "fl (of_int 800 / of_int 600) = 6004799503160661 / 4503599627370496"
    by (rule fl_val[where e="0" and n=6004799503160661]) simp_all
qed simp_all

lemma height_400_of_800_600: "int_div_float 400 (6004799503160661 / 4503599627370496) = Inr (Finite (300))"
proof (rule int_div_float_val[where y=400])
  show "fl (of_int 400) = 400" using fl_of_int[of 400] by simp
  show "fl (400 / (6004799503160661 / 4503599627370496)) = 300"
    by (rule fl_val[where e="8" and n=5277655813324800]) simp_all
qed simp_all

lemma aspect_1000_500: "int_truediv 1000 500 = Inr (2)"
proof (rule int_truediv_val)
  show "fl (of_int 1000 / of_int 500) = 2"
    by (rule fl_val[where e="1" and n=4503599627370496]) simp_all
qed simp_all

lemma aspect_400_300: "int_truediv 400 300 = Inr (6004799503160661 / 4503599627370496)"
proof (rule int_truediv_val)
  show "fl (of_int 400 / of_int 300) = 6004799503160661 / 4503599627370496"
    by (rule fl_val[where e="0" and n=6004799503160661]) simp_all
qed simp_all

lemma diff_1000_500_400_300: "float_sub (2) (6004799503160661 / 4503599627370496) = Finite (3002399751580331 / 4503599627370496)"
proof (rule float_sub_val)
  show "fl (2 - 6004799503160661 / 4503599627370496) = 3002399751580331 / 4503599627370496"
    by (rule fl_val[where e="- 1" and n=6004799503160662]) simp_all
qed simp_all

lemma ratio_400_1000: "int_truediv 400 1000 = Inr (3602879701896397 / 9007199254740992)"
proof (rule int_truediv_val)
  show "fl (of_int 400 / of_int 1000) = 3602879701896397 / 9007199254740992"
    by (rule fl_val[where e="- 2" and n=7205759403792794]) simp_all
qed simp_all

lemma ratio_300_500: "int_truediv 300 500 = Inr (5404319552844595 / 9007199254740992)"
proof (rule int_truediv_val)
  show "fl (of_int 300 / of_int 500) = 5404319552844595 / 9007199254740992"
    by (rule fl_val[where e="- 1" and n=5404319552844595]) simp_all
qed simp_all

lemma height_400_of_1000_500: "int_div_float 400 (2) = Inr (Finite (200))"
proof (rule int_div_float_val[where y=400])
  show "fl (of_int 400) = 400" using fl_of_int[of 400] by simp
  show "fl (400 / (2)) = 200"
    by (rule fl_val[where e="7" and n=7036874417766400]) simp_all
qed simp_all

lemma aspect_625_300: "int_truediv 625 300 = Inr (4691249611844267 / 2251799813685248)"
proof (rule int_truediv_val)
  show "fl (of_int 625 / of_int 300) = 4691249611844267 / 2251799813685248"
    by (rule fl_val[where e="1" and n=4691249611844267]) simp_all
qed simp_all

lemma height_500_of_625_300: "int_div_float 500 (4691249611844267 / 2251799813685248) = Inr (Finite (8444249301319679 / 35184372088832))"
proof (rule int_div_float_val[where y=500])
  show "fl (of_int 500) = 500" using fl_of_int[of 500] by simp
  show "fl (500 / (4691249611844267 / 2251799813685248)) = 8444249301319679 / 35184372088832"
    by (rule fl_val[where e="7" and n=8444249301319679]) simp_all
qed simp_all


lemma py_trunc_val: "0 \<le> r \<Longrightarrow> of_int k \<le> r \<Longrightarrow> r < of_int k + 1 \<Longrightarrow> py_trunc r = k"
  by (simp add: py_trunc_def floor_unique)

lemma py_trunc_of_int: "py_trunc (of_int k) = k"
  by (simp add: py_trunc_def)

lemma trunc_239: "py_trunc (8444249301319679 / 35184372088832) = 239"
  by (rule py_trunc_val) simp_all

lemma of_int_abs_le_pow2': "\<bar>n\<bar> \<le> 2 ^ k \<Longrightarrow> \<bar>of_int n :: rat\<bar> \<le> 2 ^ k"
  by (metis of_int_abs of_int_le_iff of_int_numeral of_int_power)

lemma of_int_abs_ge_1: "n \<noteq> 0 \<Longrightarrow> (1::rat) \<le> \<bar>of_int n\<bar>"
proof -
  assume "n \<noteq> 0"
  then have "1 \<le> \<bar>n\<bar>" by simp
  then show ?thesis by (metis of_int_abs of_int_1_le_iff)
qed

lemma quotient_bounds:
  assumes "a \<noteq> 0" "b \<noteq> 0" "\<bar>a\<bar> \<le> 2 ^ 511" "\<bar>b\<bar> \<le> 2 ^ 511"
  shows "\<bar>of_int a / of_int b :: rat\<bar> \<le> 2 powi 511"
    and "2 powi (- 511) \<le> \<bar>of_int a / of_int b :: rat\<bar>"
proof -
  have a: "(1::rat) \<le> \<bar>of_int a\<bar>" "\<bar>of_int a :: rat\<bar> \<le> 2 ^ 511"
    using assms by (simp_all add: of_int_abs_ge_1 of_int_abs_le_pow2')
  have b: "(1::rat) \<le> \<bar>of_int b\<bar>" "\<bar>of_int b :: rat\<bar> \<le> 2 ^ 511"
    using assms by (simp_all add: of_int_abs_ge_1 of_int_abs_le_pow2')
  have "\<bar>of_int a :: rat\<bar> / \<bar>of_int b\<bar> \<le> 2 ^ 511 / 1"
    using a b by (intro frac_le) auto
  then show "\<bar>of_int a / of_int b :: rat\<bar> \<le> 2 powi 511" by (simp add: abs_divide)
  have "(1::rat) / 2 ^ 511 \<le> \<bar>of_int a\<bar> / \<bar>of_int b\<bar>"
    using a b by (intro frac_le) auto
  then show "2 powi (- 511) \<le> \<bar>of_int a / of_int b :: rat\<bar>"
    by (simp add: abs_divide power_int_minus_divide)
qed

lemma aspect_in_range:
  assumes "a \<noteq> 0" "b \<noteq> 0" "\<bar>a\<bar> \<le> 2 ^ 511" "\<bar>b\<bar> \<le> 2 ^ 511"
  shows "int_truediv a b = Inr (fl (of_int a / of_int b))"
    and "\<bar>fl (of_int a / of_int b)\<bar> \<le> 2 powi 511"
    and "2 powi (- 511) \<le> \<bar>fl (of_int a / of_int b)\<bar>"
proof -
  have "\<bar>a\<bar> \<le> 2 ^ 1023" using assms(3) by (rule order_trans) simp
  with assms(2) show "int_truediv a b = Inr (fl (of_int a / of_int b))" by (rule int_truediv_ok)
  show "\<bar>fl (of_int a / of_int b)\<bar> \<le> 2 powi 511"
    using quotient_bounds(1)[OF assms] by (rule fl_abs_le) simp
  show "2 powi (- 511) \<le> \<bar>fl (of_int a / of_int b)\<bar>"
    using quotient_bounds(2)[OF assms] by (rule fl_abs_ge) simp
qed

lemma float_of_int_in_range:
  assumes "\<bar>n\<bar> \<le> 2 ^ 511"
  shows "float_of_int n = Inr (fl (of_int n))" and "\<bar>fl (of_int n)\<bar> \<le> 2 powi 511"
proof -
  have "\<bar>n\<bar> \<le> 2 ^ 1023" using assms by (rule order_trans) simp
  then show "float_of_int n = Inr (fl (of_int n))" by (rule float_of_int_ok)
  have "\<bar>of_int n :: rat\<bar> \<le> 2 powi 511" using of_int_abs_le_pow2'[OF assms] by simp
  then show "\<bar>fl (of_int n)\<bar> \<le> 2 powi 511" by (rule fl_abs_le) simp
qed

lemma product_finite:
  assumes "\<bar>y\<bar> \<le> 2 powi 511" "\<bar>x\<bar> \<le> 2 powi 511"
  shows "ieee_result (y * x) = Finite (fl (y * x))"
proof -
  have "\<bar>y\<bar> * \<bar>x\<bar> \<le> 2 powi 511 * 2 powi 511" using assms by (intro mult_mono) auto
  then have "\<bar>y * x\<bar> \<le> 2 powi 1022" by (simp add: abs_mult)
  then show ?thesis by (rule ieee_finite) simp_all
qed

lemma quotient_finite:
  assumes "\<bar>y\<bar> \<le> 2 powi 511" "2 powi (- 511) \<le> \<bar>x\<bar>"
  shows "ieee_result (y / x) = Finite (fl (y / x))"
proof -
  have "\<bar>1 / x\<bar> \<le> 2 powi 511"
  proof -
    have "1 / \<bar>x\<bar> \<le> 1 / 2 powi (- 511)" using assms(2) by (intro divide_left_mono) auto
    then show ?thesis by (simp add: power_int_minus_divide abs_divide)
  qed
  from product_finite[OF assms(1) this] show ?thesis by simp
qed

lemma int_mul_float_in_range:
  assumes "\<bar>n\<bar> \<le> 2 ^ 511" "\<bar>x\<bar> \<le> 2 powi 511"
  shows "int_mul_float n x = Inr (Finite (fl (fl (of_int n) * x)))"
  using float_of_int_in_range[OF assms(1)] product_finite[OF _ assms(2)]
  by (simp add: int_mul_float_def)

lemma int_div_float_in_range:
  assumes "\<bar>n\<bar> \<le> 2 ^ 511" "2 powi (- 511) \<le> \<bar>x\<bar>"
  shows "int_div_float n x = Inr (Finite (fl (fl (of_int n) / x)))"
proof -
  have "x \<noteq> 0" using assms(2) by (metis abs_zero not_le zero_less_power_int zero_less_numeral)
  then show ?thesis
    using float_of_int_in_range[OF assms(1)] quotient_finite[OF _ assms(2)]
    by (simp add: int_div_float_def)
qed









text \<open>
  Claim C1, as stated, fails on its own example: for the original size
  (1000, 500) and the targets (400, 300) the width ratio 0.4 is not greater than
  the height ratio 0.6, so the code keeps the width and recomputes the height,
  \<^verbatim>\<open>int(400 / 2.0) = 200\<close>. The result is (400, 200), not (600, 300).
\<close>

theorem limiting_axis_counterexample:
  "calculate_new_dimensions 1000 500 (Some 400) (Some 300) True = Inr (400, 200)"
  by (simp add: calculate_new_dimensions_def aspect_1000_500 aspect_400_300
      diff_1000_500_400_300 fl_hundredth ratio_400_1000 ratio_300_500
      height_400_of_1000_500 py_trunc_of_int[of 200, simplified])

text \<open>
  Claim C1, amended. With maintain_aspect true, both targets given and the two
  aspect ratios at least 0.01 apart (as floats), the axis with the smaller scale
  ratio is kept: when target_height / original_height is less than
  target_width / original_width the target height is kept and the width is
  \<^verbatim>\<open>int(target_height * aspect_ratio)\<close>, otherwise the target width is kept and the
  height is \<^verbatim>\<open>int(target_width / aspect_ratio)\<close>. This holds for all nonzero sizes
  and targets of magnitude at most \<open>2 ^ 511\<close>, for which no float operation
  overflows; for the original (1000, 500) and the targets (400, 300) the result
  is (400, 200).
\<close>

theorem smaller_ratio_axis_kept:
  assumes "original_width \<noteq> 0" "\<bar>original_width\<bar> \<le> 2 ^ 511"
    and "original_height \<noteq> 0" "\<bar>original_height\<bar> \<le> 2 ^ 511"
    and "tw \<noteq> 0" "\<bar>tw\<bar> \<le> 2 ^ 511" and "th \<noteq> 0" "\<bar>th\<bar> \<le> 2 ^ 511"
    and "\<not> float_less
              (float_abs (float_sub (fl (of_int original_width / of_int original_height))
                                    (fl (of_int tw / of_int th))))
              (Finite (fl (1 / 100)))"
  shows "calculate_new_dimensions original_width original_height (Some tw) (Some th) True
         = (if fl (of_int th / of_int original_height) < fl (of_int tw / of_int original_width)
            then Inr (py_trunc (fl (fl (of_int th)
                                      * fl (of_int original_width / of_int original_height))), th)
            else Inr (tw, py_trunc (fl (fl (of_int tw)
                                      / fl (of_int original_width / of_int original_height)))))"
proof -
  note a = aspect_in_range[OF assms(1) assms(3) assms(2) assms(4)]
  note t = aspect_in_range(1)[OF assms(5) assms(7) assms(6) assms(8)]
  note rw = aspect_in_range(1)[OF assms(5) assms(1) assms(6) assms(2)]
  note rh = aspect_in_range(1)[OF assms(7) assms(3) assms(8) assms(4)]
  note m = int_mul_float_in_range[OF assms(8) a(2)]
  note d = int_div_float_in_range[OF assms(6) a(3)]
  show ?thesis
    using assms(5,7,9) by (simp add: calculate_new_dimensions_def a(1) t rw rh m d)
qed

theorem smaller_ratio_axis_kept_witness:
  "calculate_new_dimensions 1000 500 (Some 400) (Some 300) True
   = (if fl (of_int 300 / of_int 500) < fl (of_int 400 / of_int 1000)
      then Inr (py_trunc (fl (fl (of_int 300) * fl (of_int 1000 / of_int 500))), 300)
      else Inr (400, py_trunc (fl (fl (of_int 400) / fl (of_int 1000 / of_int 500)))))"
proof (rule smaller_ratio_axis_kept)
  have x: "fl (of_int 1000 / of_int 500) = 2" "fl (of_int 400 / of_int 300) = 6004799503160661 / 4503599627370496"
    using aspect_1000_500 aspect_400_300
    by (simp_all add: int_truediv_ok)
  show "\<not> float_less (float_abs (float_sub (fl (of_int 1000 / of_int 500)) (fl (of_int 400 / of_int 300))))
          (Finite (fl (1 / 100)))"
    unfolding x by (simp add: diff_1000_500_400_300 fl_hundredth)
qed simp_all

text \<open>
  Claim C3, as stated for every size, fails: the code computes
  \<^verbatim>\<open>int(target_width / (original_width / original_height))\<close> with two rounded float
  divisions. For the original size (625, 300) and the target width 500 the
  aspect ratio rounds to 2.0833333333333335, the quotient to 239.99999999999997,
  and the height is 239, while \<^verbatim>\<open>int(500 * 300 / 625)\<close> is 240.
\<close>

theorem width_only_counterexample:
  "calculate_new_dimensions 625 300 (Some 500) None True = Inr (500, 239)
   \<and> py_trunc (500 * 300 / 625) = 240"
  by (simp add: calculate_new_dimensions_def aspect_625_300 height_500_of_625_300 trunc_239
      py_trunc_of_int[of 240, simplified])

text \<open>
  Claim C3, amended. For every original size (w, h) with w and h at least 1,
  and every nonzero target t, all of magnitude at most \<open>2 ^ 511\<close>: with only the
  width given the resolver returns the width t and the height
  \<^verbatim>\<open>int(t / (w / h))\<close>, with only the height given the height t and the width
  \<^verbatim>\<open>int(t * (w / h))\<close>, where each division and product is rounded to binary64
  and \<^verbatim>\<open>int\<close> truncates toward zero. For the original (800, 600) and the target
  width 400 the result is (400, 300).
\<close>

theorem single_target_dimension:
  assumes "1 \<le> w" "w \<le> 2 ^ 511" and "1 \<le> h" "h \<le> 2 ^ 511"
    and "t \<noteq> 0" "\<bar>t\<bar> \<le> 2 ^ 511"
  shows "calculate_new_dimensions w h (Some t) None True
           = Inr (t, py_trunc (fl (fl (of_int t) / fl (of_int w / of_int h))))
         \<and> calculate_new_dimensions w h None (Some t) True
           = Inr (py_trunc (fl (fl (of_int t) * fl (of_int w / of_int h))), t)
         \<and> calculate_new_dimensions 800 600 (Some 400) None True = Inr (400, 300)"
proof -
  have w: "w \<noteq> 0" "\<bar>w\<bar> \<le> 2 ^ 511" and h: "h \<noteq> 0" "\<bar>h\<bar> \<le> 2 ^ 511"
    using assms(1-4) by simp_all
  note a = aspect_in_range[OF w(1) h(1) w(2) h(2)]
  note m = int_mul_float_in_range[OF assms(6) a(2)]
  note d = int_div_float_in_range[OF assms(6) a(3)]
  have "calculate_new_dimensions 800 600 (Some 400) None True = Inr (400, 300)"
    by (simp add: calculate_new_dimensions_def aspect_800_600 height_400_of_800_600
        py_trunc_of_int[of 300, simplified])
  then show ?thesis
    using assms(5) by (simp add: calculate_new_dimensions_def a(1) m d)
qed

theorem single_target_dimension_witness:
  "calculate_new_dimensions 625 300 (Some 500) None True
     = Inr (500, py_trunc (fl (fl (of_int 500) / fl (of_int 625 / of_int 300))))
   \<and> calculate_new_dimensions 625 300 None (Some 500) True
     = Inr (py_trunc (fl (fl (of_int 500) * fl (of_int 625 / of_int 300))), 500)
   \<and> calculate_new_dimensions 800 600 (Some 400) None True = Inr (400, 300)"
  using single_target_dimension[of 625 300 500] by simp


section \<open>Outline dimensions, enhancement and physical size\<close>

lemma shape_finish: "shape (invert_and_binarize img) = shape img"
  by (simp add: invert_and_binarize_def threshold_binary_def bitwise_not_def shape_map)

lemma shape_outline_steps:
  assumes "\<forall>x. shape (cvtColor_BGR2GRAY lib x) = shape x"
    and "\<forall>x k s. shape (GaussianBlur lib x k s) = shape x"
    and "\<forall>x a b c d. shape (Canny lib x a b c d) = shape x"
    and "\<forall>x k n. shape (dilate lib x k n) = shape x"
  shows "shape (outline_steps lib self t img) = shape img"
  using assms by (simp add: outline_steps_def Let_def shape_finish)

text \<open>
  Claim C9. For a readable input, \<^verbatim>\<open>extract_outline\<close> preserves the pixel
  dimensions, given that the four library stages it calls (grayscale conversion,
  Gaussian blur, Canny, dilation) return an image of the size of their input, as
  OpenCV documents; inversion and thresholding are modelled and preserve the size.
  The outline handed to \<^verbatim>\<open>cv2.imwrite\<close> has the height and width of the decoded
  input; if the write raises, the result is that failure, and otherwise it is a
  success whose reported width and height are those of the decoded input.
\<close>

theorem outline_preserves_dimensions:
  assumes "imread lib fs input_path = Some img"
    and "\<forall>x. shape (cvtColor_BGR2GRAY lib x) = shape x"
    and "\<forall>x k s. shape (GaussianBlur lib x k s) = shape x"
    and "\<forall>x a b c d. shape (Canny lib x a b c d) = shape x"
    and "\<forall>x k n. shape (dilate lib x k n) = shape x"
    and "outline = outline_steps lib self (clamp_thickness self thickness) img"
    and "params = imwrite_params (str_lower lib (path_suffix lib output_path))"
  shows "shape outline = shape img \<and>
           (case imwrite lib fs output_path outline params of
              (fs', Some e) \<Rightarrow>
                extract_outline lib self fs input_path output_path thickness
                  = (Failure (Str_of e), fs')
            | (fs', None) \<Rightarrow>
                (\<exists>info. extract_outline lib self fs input_path output_path thickness
                           = (Success info, fs')
                        \<and> (out_height info, out_width info) = shape img))"
proof -
  have s: "shape outline = shape img"
    unfolding assms(6) using assms(2-5) by (rule shape_outline_steps)
  obtain h w where hw: "shape outline = (h, w)" by (cases "shape outline")
  obtain fs' r where wr: "imwrite lib fs output_path outline params = (fs', r)"
    by (cases "imwrite lib fs output_path outline params")
  have "extract_outline lib self fs input_path output_path thickness
        = (case r of Some e \<Rightarrow> (Failure (Str_of e), fs')
           | None \<Rightarrow> (Success \<lparr> out_width = w, out_height = h,
                          out_thickness = clamp_thickness self thickness,
                          out_file_path = output_path,
                          out_format = Some (format_of lib (str_lower lib (path_suffix lib output_path))),
                          out_auto_threshold = None, out_detail_level = None \<rparr>, fs'))"
    using assms(1) wr hw unfolding assms(6,7)
    by (simp add: extract_outline_def Let_def split: option.split)
  then show ?thesis using s hw wr by (cases r) auto
qed

theorem outline_preserves_dimensions_witness:
  "imread plain_lib [] ''in.png'' = Some [[(10, 20, 30), (40, 50, 60)]]
   \<and> (\<forall>x. shape (cvtColor_BGR2GRAY plain_lib x) = shape x)
   \<and> (\<forall>x k s. shape (GaussianBlur plain_lib x k s) = shape x)
   \<and> (\<forall>x a b c d. shape (Canny plain_lib x a b c d) = shape x)
   \<and> (\<forall>x k n. shape (dilate plain_lib x k n) = shape x)
   \<and> shape [[255, 255 :: 8 word]] = shape [[(10, 20, 30), (40, 50, 60) :: 8 word \<times> 8 word \<times> 8 word]]
   \<and> (\<exists>info. extract_outline plain_lib
                 \<lparr>default_thickness = 1, canny_threshold1 = 50, canny_threshold2 = 150\<rparr>
                 [] ''in.png'' ''out.png'' (Some 3)
               = (Success info, [''out.png''])
             \<and> (out_height info, out_width info) = (1, 2))"
proof -
  have a: "imread plain_lib [] ''in.png'' = Some [[(10, 20, 30), (40, 50, 60)]]"
    by (simp add: plain_lib_def)
  have b: "\<forall>x. shape (cvtColor_BGR2GRAY plain_lib x) = shape x"
    by (simp add: plain_lib_def shape_map)
  have c: "\<forall>x k s. shape (GaussianBlur plain_lib x k s) = shape x"
    by (simp add: plain_lib_def)
  have d: "\<forall>x a b c d. shape (Canny plain_lib x a b c d) = shape x"
    by (simp add: plain_lib_def shape_map)
  have e: "\<forall>x k n. shape (dilate plain_lib x k n) = shape x"
    by (simp add: plain_lib_def)
  have o: "[[255, 255]] = outline_steps plain_lib
              \<lparr>default_thickness = 1, canny_threshold1 = 50, canny_threshold2 = 150\<rparr>
              (clamp_thickness \<lparr>default_thickness = 1, canny_threshold1 = 50, canny_threshold2 = 150\<rparr> (Some 3))
              [[(10, 20, 30), (40, 50, 60)]]"
    by (simp add: outline_steps_def plain_lib_def clamp_thickness_def invert_and_binarize_pixels)
  have p: "[(IMWRITE_PNG_COMPRESSION, 9)]
             = imwrite_params (str_lower plain_lib (path_suffix plain_lib ''out.png''))"
    by (simp add: imwrite_params_def plain_lib_def)
  have w: "imwrite plain_lib [] ''out.png'' [[255, 255]] [(IMWRITE_PNG_COMPRESSION, 9)] = ([''out.png''], None)"
    by (simp add: plain_lib_def)
  from outline_preserves_dimensions[OF a b c d e o p] a b c d e
  show ?thesis unfolding w by (simp add: shape_def)
qed

text \<open>
  Claim C7. The resize step of \<^verbatim>\<open>enhance_image\<close> calls \<^verbatim>\<open>cv2.resize\<close> with
  \<^verbatim>\<open>INTER_CUBIC\<close> whenever the target is larger than the upscaled image in either
  axis, and with \<^verbatim>\<open>INTER_AREA\<close> when the target is strictly smaller in both axes.
\<close>

theorem interpolation_choice:
  assumes "shape upscaled_img = (upscaled_height, upscaled_width)"
  shows "(upscaled_width < target_width \<or> upscaled_height < target_height \<longrightarrow>
            resize_to_target lib upscaled_img target_width target_height
              = resize lib upscaled_img (target_width, target_height) INTER_CUBIC)
         \<and> (target_width < upscaled_width \<and> target_height < upscaled_height \<longrightarrow>
            resize_to_target lib upscaled_img target_width target_height
              = resize lib upscaled_img (target_width, target_height) INTER_AREA)"
  using assms by (auto simp: resize_to_target_def select_interpolation_def)

theorem interpolation_choice_witness:
  "shape [[(1, 2, 3), (4, 5, 6)], [(7, 8, 9), (1, 1, 1) :: 8 word \<times> 8 word \<times> 8 word]] = (2, 2)
   \<and> resize_to_target plain_lib [[(1, 2, 3), (4, 5, 6)], [(7, 8, 9), (1, 1, 1)]] 3 1
       = resize plain_lib [[(1, 2, 3), (4, 5, 6)], [(7, 8, 9), (1, 1, 1)]] (3, 1) INTER_CUBIC
   \<and> resize_to_target plain_lib [[(1, 2, 3), (4, 5, 6)], [(7, 8, 9), (1, 1, 1)]] 1 1
       = resize plain_lib [[(1, 2, 3), (4, 5, 6)], [(7, 8, 9), (1, 1, 1)]] (1, 1) INTER_AREA"
  using interpolation_choice[of "[[(1, 2, 3), (4, 5, 6)], [(7, 8, 9), (1, 1, 1)]]" 2 2 3 1 plain_lib]
    interpolation_choice[of "[[(1, 2, 3), (4, 5, 6)], [(7, 8, 9), (1, 1, 1)]]" 2 2 1 1 plain_lib]
  by (simp add: shape_def)

text \<open>
  Claim C6, as stated for every request, fails on the kind of the error: when the
  processor holds a model object that is not loaded (after \<^verbatim>\<open>cleanup\<close>, which
  unloads it) and the input cannot be read, the image is read before the model
  is asked, and the failure is the read failure, not a model failure.
\<close>

theorem model_unavailable_counterexample:
  "enhance_image plain_lib \<lparr>esrgan_model = Some \<lparr>model_loaded = False, esrgan_scale = 4\<rparr>\<rparr> []
     ''missing.png'' ''out.png'' None None 72 72 True
   = (Failure (Text ''Failed to read image from missing.png''), [])"
  by (simp add: enhance_image_def plain_lib_def)

lemma upscale_unloaded:
  "\<not> model_loaded model \<Longrightarrow> upscale_image lib model fs p
     = Inl (RuntimeError ''Model not loaded. Cannot perform upscaling.'')"
  by (simp add: upscale_image_def)

text \<open>
  Claim C6, amended. While the model is not available, every call of
  \<^verbatim>\<open>enhance_image\<close> returns a failure and leaves the file system as it was, and
  its result does not depend on \<^verbatim>\<open>cv2.resize\<close> or on the save operation: nothing
  is resized and nothing is written. When the processor holds no model the
  error is \<^verbatim>\<open>ESRGAN model not initialized\<close>. When it holds a model object that is
  not loaded, the error is \<^verbatim>\<open>Model not loaded. Cannot perform upscaling.\<close>
  provided the input is readable and the dimension arithmetic raises nothing;
  an unreadable input is reported as a read failure first.
\<close>

theorem enhance_fails_without_model:
  "(esrgan_model self = None \<longrightarrow>
      enhance_image lib self fs input_path output_path target_width target_height
          ppi_horizontal ppi_vertical maintain_aspect
        = (Failure (Text ''ESRGAN model not initialized''), fs))
   \<and> (esrgan_model self = Some model \<and> \<not> model_loaded model \<longrightarrow>
      (\<exists>e. enhance_image lib self fs input_path output_path target_width target_height
              ppi_horizontal ppi_vertical maintain_aspect = (Failure e, fs))
      \<and> enhance_image (lib\<lparr>resize := r, pil_save := s\<rparr>) self fs input_path output_path
              target_width target_height ppi_horizontal ppi_vertical maintain_aspect
          = enhance_image lib self fs input_path output_path target_width target_height
              ppi_horizontal ppi_vertical maintain_aspect)
   \<and> (esrgan_model self = Some model \<and> \<not> model_loaded model
        \<and> imread lib fs input_path = Some img
        \<and> target_dimensions (snd (shape img)) (fst (shape img)) target_width target_height
              maintain_aspect = Inr d \<longrightarrow>
      enhance_image lib self fs input_path output_path target_width target_height
          ppi_horizontal ppi_vertical maintain_aspect
        = (Failure (Str_of (RuntimeError ''Model not loaded. Cannot perform upscaling.'')), fs))"
  by (auto simp: enhance_image_def upscale_unloaded upscale_image_def
      split: option.split prod.split sum.split)



lemma overflow_2_1024: "ieee_result (of_int (2 ^ 1024) / of_int 1) = PosInf"
proof -
  have f: "fl (of_int (2 ^ 1024) / of_int 1) = 2 ^ 1024"
    by (rule fl_val[where e=1024 and n="2 ^ 52"]) simp_all
  show ?thesis unfolding ieee_result_def Let_def f by simp
qed

text \<open>
  Claim C10, as stated for every pixel count, fails for a count beyond the
  range of a float: \<^verbatim>\<open>2 ** 1024 / 1\<close> raises OverflowError.
\<close>

theorem pixels_to_inches_counterexample:
  "pixels_to_inches (2 ^ 1024) 1 = Inl OverflowError"
  unfolding pixels_to_inches_def int_truediv_def overflow_2_1024 by simp

lemma inches_800_72: "int_truediv 800 72 = Inr (3127499741229511 / 281474976710656)"
proof (rule int_truediv_val)
  show "fl (of_int 800 / of_int 72) = 3127499741229511 / 281474976710656"
    by (rule fl_val[where e="3" and n=6254999482459022]) simp_all
qed simp_all

lemma round2_800_72: "py_round2 (3127499741229511 / 281474976710656) = fl (1111 / 100)"
  unfolding py_round2_def using rhe_unique[of 1111 "3127499741229511 / 281474976710656 * 100"] by simp

text \<open>
  Claim C10, amended. \<^verbatim>\<open>pixels_to_inches\<close> never divides by zero: for every ppi
  that is 0 or negative it returns 0, whatever the pixel count. For a positive ppi
  and a pixel count of magnitude at most \<open>2 ^ 1023\<close> it returns
  \<^verbatim>\<open>round(pixels / ppi, 2)\<close>, the float quotient rounded to two decimals; for
  800 pixels at 72 ppi that is the float 11.11.
\<close>

theorem pixels_to_inches_total:
  "(ppi \<le> 0 \<longrightarrow> pixels_to_inches pixels ppi = Inr 0)
   \<and> (0 < ppi \<longrightarrow> \<bar>pixels\<bar> \<le> 2 ^ 1023 \<longrightarrow>
        pixels_to_inches pixels ppi = Inr (py_round2 (fl (of_int pixels / of_int ppi))))
   \<and> pixels_to_inches 800 72 = Inr (fl (1111 / 100))"
proof (intro conjI impI)
  assume "ppi \<le> 0"
  then show "pixels_to_inches pixels ppi = Inr 0" by (simp add: pixels_to_inches_def)
next
  assume "0 < ppi" "\<bar>pixels\<bar> \<le> 2 ^ 1023"
  then show "pixels_to_inches pixels ppi = Inr (py_round2 (fl (of_int pixels / of_int ppi)))"
    by (simp add: pixels_to_inches_def int_truediv_ok)
next
  show "pixels_to_inches 800 72 = Inr (fl (1111 / 100))"
    by (simp add: pixels_to_inches_def inches_800_72 round2_800_72)
qed

theorem pixels_to_inches_total_witness:
  "pixels_to_inches 300 0 = Inr 0
   \<and> pixels_to_inches 300 (- 72) = Inr 0
   \<and> pixels_to_inches 300 72 = Inr (py_round2 (fl (of_int 300 / of_int 72)))"
  using pixels_to_inches_total[of 0 300] pixels_to_inches_total[of "- 72" 300]
    pixels_to_inches_total[of 72 300]
  by simp


theorem enhance_fails_without_model_witness:
  "enhance_image plain_lib \<lparr>esrgan_model = None\<rparr> [] ''in.png'' ''out.png'' (Some 4) (Some 2)
       72 72 False
     = (Failure (Text ''ESRGAN model not initialized''), [])
   \<and> enhance_image plain_lib \<lparr>esrgan_model = Some \<lparr>model_loaded = False, esrgan_scale = 4\<rparr>\<rparr>
       [] ''in.png'' ''out.png'' (Some 4) (Some 2) 72 72 False
     = (Failure (Str_of (RuntimeError ''Model not loaded. Cannot perform upscaling.'')), [])"
  using enhance_fails_without_model[where self="\<lparr>esrgan_model = None\<rparr>" and lib=plain_lib
      and fs="[]" and input_path="''in.png''" and output_path="''out.png''"
      and target_width="Some 4" and target_height="Some 2" and ppi_horizontal=72
      and ppi_vertical=72 and maintain_aspect=False]
    enhance_fails_without_model[where
      self="\<lparr>esrgan_model = Some \<lparr>model_loaded = False, esrgan_scale = 4\<rparr>\<rparr>"
      and model="\<lparr>model_loaded = False, esrgan_scale = 4\<rparr>" and lib=plain_lib
      and fs="[]" and input_path="''in.png''" and output_path="''out.png''"
      and target_width="Some 4" and target_height="Some 2" and ppi_horizontal=72
      and ppi_vertical=72 and maintain_aspect=False
      and img="[[(10, 20, 30), (40, 50, 60)]]" and d="(4, 2)"]
  by (simp add: plain_lib_def target_dimensions_def shape_def)

end
